theory Spec2Isabelle
  imports Complex_Main
begin

unbundle bit_operations_syntax

section \<open>Numbers, voxel kinds and the random source\<close>

text \<open>
  Coordinates that the program only ever uses as integers (voxel and chunk coordinates)
  are \<open>int\<close>; array sizes and loop counters are \<open>nat\<close>; every other JavaScript number
  (noise values, terrain heights, positions of the observer and of a ray) is a \<open>real\<close>,
  so arithmetic is exact and IEEE rounding is not part of the model.
\<close>

text \<open>
  Modelled from the spec: the enumeration \<open>BlockType\<close> (the file BlockType.ts that declares
  it is not among the sources). The spec lists the voxel kinds air, bedrock, stone, dirt,
  grass, sand, water, glass, leaves, wood and brick; these are also exactly the members
  that Chunk.ts, World.ts and TextureManager.ts mention.
\<close>

datatype BlockType =
  AIR | BEDROCK | STONE | DIRT | GRASS | SAND | WATER | GLASS | LEAVES | WOOD | BRICK

text \<open>The test \<open>[BlockType.WATER, BlockType.GLASS, BlockType.LEAVES].includes(t)\<close>.\<close>

definition isTransparent :: "BlockType \<Rightarrow> bool" where
  "isTransparent t = (t \<in> set [WATER, GLASS, LEAVES])"

text \<open>
  JavaScript's \<open>%\<close> on integers: the remainder takes the sign of the dividend.
\<close>

definition js_rem :: "int \<Rightarrow> int \<Rightarrow> int" where
  "js_rem a n = sgn a * (\<bar>a\<bar> mod \<bar>n\<bar>)"

text \<open>
  \<open>Math.random()\<close> is global state: a sequence of draws and the position of the next one.
\<close>

record Random =
  draws :: "nat \<Rightarrow> real"
  drawn :: nat

definition Math_random :: "Random \<Rightarrow> real \<times> Random" where
  "Math_random r = (draws r (drawn r), r\<lparr>drawn := Suc (drawn r)\<rparr>)"

section \<open>SimplexNoise.ts\<close>

record SimplexNoise =
  perm :: "int list"
  gradP :: "int list list"

definition grad3 :: "int list list" where
  "grad3 = [[1, 1, 0], [-1, 1, 0], [1, -1, 0], [-1, -1, 0],
            [1, 0, 1], [-1, 0, 1], [1, 0, -1], [-1, 0, -1],
            [0, 1, 1], [0, -1, 1], [0, 1, -1], [0, -1, -1]]"

text \<open>
  The first lines of \<open>seed\<close>: scale a seed in (0,1), floor it, and spread a small seed
  over two bytes. Seeds come from \<open>Math.random()\<close>, so the integer is in [0, 65536)
  and the 32-bit width of JavaScript's bit operators is never reached.
\<close>

definition seedInt :: "real \<Rightarrow> int" where
  "seedInt seed0 =
     (let seed1 = (if seed0 > 0 \<and> seed0 < 1 then seed0 * 65536 else seed0);
          seed2 = \<lfloor>seed1\<rfloor>
      in if seed2 < 256 then seed2 OR push_bit 8 seed2 else seed2)"

text \<open>The value \<open>v % 256\<close> stored at \<open>p[i]\<close> and \<open>p[i + 256]\<close>.\<close>

definition permEntry :: "int \<Rightarrow> nat \<Rightarrow> int" where
  "permEntry seed i =
     (let v = (if int i AND 1 \<noteq> 0 then (3 * int i) XOR seed else int i XOR seed)
      in js_rem v 256)"

definition SimplexNoise_new :: "real \<Rightarrow> SimplexNoise" where
  "SimplexNoise_new seed0 =
     (let seed = seedInt seed0;
          half = map (permEntry seed) [0..<256];
          p = half @ half
      in \<lparr>perm = p, gradP = map (\<lambda>v. grad3 ! nat (js_rem v 12)) p\<rparr>)"

definition dot :: "int list \<Rightarrow> real \<Rightarrow> real \<Rightarrow> real" where
  "dot g x y = of_int (g ! 0) * x + of_int (g ! 1) * y"

definition fade :: "real \<Rightarrow> real" where
  "fade t = t * t * t * (t * (t * 6 - 15) + 10)"

definition lerp :: "real \<Rightarrow> real \<Rightarrow> real \<Rightarrow> real" where
  "lerp a b t = a + t * (b - a)"

definition noise :: "SimplexNoise \<Rightarrow> real \<Rightarrow> real \<Rightarrow> real" where
  "noise s x0 y0 =
     (let X0 = \<lfloor>x0\<rfloor>; Y0 = \<lfloor>y0\<rfloor>;
          x = x0 - of_int X0; y = y0 - of_int Y0;
          X = X0 AND 255; Y = Y0 AND 255;
          n00 = dot (gradP s ! nat ((X + perm s ! nat Y) AND 511)) x y;
          n01 = dot (gradP s ! nat ((X + perm s ! nat (Y + 1)) AND 511)) x (y - 1);
          n10 = dot (gradP s ! nat ((X + 1 + perm s ! nat Y) AND 511)) (x - 1) y;
          n11 = dot (gradP s ! nat ((X + 1 + perm s ! nat (Y + 1)) AND 511)) (x - 1) (y - 1);
          u = fade x
      in lerp (lerp n00 n10 u) (lerp n01 n11 u) (fade y))"

section \<open>Chunk.ts\<close>

subsection \<open>The chunk and its geometry\<close>

text \<open>
  One entry of \<open>blockFaceGeometries\<close>: the four flat buffers of a batch. The key of a
  batch, the string \<open>`${blockType}_${i}`\<close>, is the pair of the voxel kind and the index of
  the face direction.
\<close>

record Geo =
  positions :: "real list"
  normals :: "real list"
  uvs :: "real list"
  indices :: "nat list"

type_synonym GeoKey = "BlockType \<times> nat"

text \<open>
  The fields of the class that the world logic reads or writes. \<open>scene\<close> and
  \<open>textureManager\<close> belong to the renderer and are left out; \<open>mesh\<close> holds the batches that
  \<open>updateMesh\<close> turns into THREE.Mesh children, in the insertion order of the JavaScript
  Map; \<open>hasWorld\<close> tells whether \<open>this.world\<close> is set; \<open>meshBuilds\<close> counts the calls of
  \<open>updateMesh\<close> on this chunk, which is how a mesh rebuild is observed.
\<close>

record Chunk =
  chunkX :: int
  chunkZ :: int
  size_c :: nat
  height_c :: nat
  blocks :: "BlockType list list list"
  mesh :: "(GeoKey \<times> Geo) list"
  simplex :: SimplexNoise
  hasWorld :: bool
  meshBuilds :: nat

text \<open>
  The constructor. It draws the seed of the chunk's own noise source from
  \<open>Math.random()\<close> (the default argument of \<open>new SimplexNoise()\<close>) and fills the
  \<open>size \<times> height \<times> size\<close> array with air.
\<close>

definition Chunk_new :: "Random \<Rightarrow> int \<Rightarrow> int \<Rightarrow> nat \<Rightarrow> nat \<Rightarrow> Chunk \<times> Random" where
  "Chunk_new r cx cz sz h =
     (let (seed, r') = Math_random r
      in (\<lparr>chunkX = cx, chunkZ = cz, size_c = sz, height_c = h,
            blocks = replicate sz (replicate h (replicate sz AIR)),
            mesh = [], simplex = SimplexNoise_new seed, hasWorld = False, meshBuilds = 0\<rparr>, r'))"

definition Chunk_setWorld :: "Chunk \<Rightarrow> Chunk" where
  "Chunk_setWorld c = c\<lparr>hasWorld := True\<rparr>"

text \<open>
  The representation invariant that the constructor sets up and every method keeps:
  the array has the dimensions the chunk announces.
\<close>

definition wf_blocks :: "nat \<Rightarrow> nat \<Rightarrow> BlockType list list list \<Rightarrow> bool" where
  "wf_blocks sz h b =
     (length b = sz \<and> (\<forall>col \<in> set b. length col = h \<and> (\<forall>row \<in> set col. length row = sz)))"

definition wf_chunk :: "Chunk \<Rightarrow> bool" where
  "wf_chunk c = wf_blocks (size_c c) (height_c c) (blocks c)"

text \<open>The assignment \<open>this.blocks[x][y][z] = t\<close>.\<close>

definition set3 :: "BlockType list list list \<Rightarrow> nat \<Rightarrow> nat \<Rightarrow> nat \<Rightarrow> BlockType \<Rightarrow> BlockType list list list" where
  "set3 b x y z t = b[x := (b ! x)[y := (b ! x ! y)[z := t]]]"

definition outside :: "Chunk \<Rightarrow> int \<Rightarrow> int \<Rightarrow> int \<Rightarrow> bool" where
  "outside c x y z =
     (x < 0 \<or> x \<ge> int (size_c c) \<or> y < 0 \<or> y \<ge> int (height_c c) \<or> z < 0 \<or> z \<ge> int (size_c c))"

definition Chunk_getBlock :: "Chunk \<Rightarrow> int \<Rightarrow> int \<Rightarrow> int \<Rightarrow> BlockType" where
  "Chunk_getBlock c x y z =
     (if outside c x y z then AIR else blocks c ! nat x ! nat y ! nat z)"

subsection \<open>Face visibility\<close>

text \<open>
  \<open>isFaceVisible\<close>. The argument \<open>wget\<close> is \<open>this.world.getBlock\<close>, the world's read at
  world coordinates; it is consulted only when \<open>this.world\<close> is set.
\<close>

definition Chunk_isFaceVisible ::
  "(int \<Rightarrow> int \<Rightarrow> int \<Rightarrow> BlockType) \<Rightarrow> Chunk \<Rightarrow> nat \<Rightarrow> nat \<Rightarrow> nat \<Rightarrow> int \<Rightarrow> int \<Rightarrow> int \<Rightarrow> bool" where
  "Chunk_isFaceVisible wget c x y z dx dy dz =
     (let nx = int x + dx; ny = int y + dy; nz = int z + dz
      in if outside c nx ny nz then
           (let worldX = chunkX c * int (size_c c) + int x;
                worldZ = chunkZ c * int (size_c c) + int z;
                adjacentWorldX = worldX + dx;
                adjacentWorldY = ny;
                adjacentWorldZ = worldZ + dz
            in if hasWorld c then
                 (let adjacentBlockType = wget adjacentWorldX adjacentWorldY adjacentWorldZ
                  in if adjacentBlockType = AIR then True
                     else (let currentBlockType = blocks c ! x ! y ! z
                           in if currentBlockType \<noteq> adjacentBlockType \<and> isTransparent adjacentBlockType
                              then True else False))
               else True)
         else
           (let adjacentType = blocks c ! nat nx ! nat ny ! nat nz;
                currentType = blocks c ! x ! y ! z
            in if adjacentType = AIR then True
               else if currentType \<noteq> adjacentType \<and> isTransparent currentType \<and> isTransparent adjacentType
               then True
               else currentType \<noteq> adjacentType \<and> isTransparent adjacentType))"

text \<open>The \<open>dir\<close> entries of the table \<open>directions\<close>: right, left, top, bottom, front, back.\<close>

definition directions :: "(int \<times> int \<times> int) list" where
  "directions = [(1, 0, 0), (-1, 0, 0), (0, 1, 0), (0, -1, 0), (0, 0, 1), (0, 0, -1)]"


subsection \<open>Building the geometry\<close>

text \<open>
  The quad that \<open>updateMesh\<close> pushes for the face of the voxel \<open>(x, y, z)\<close> in the
  direction \<open>(dx, dy, dz)\<close>: twelve position numbers, twelve normal numbers, eight
  texture coordinates and six indices starting at \<open>vOffset\<close>.
\<close>

definition facePositions :: "nat \<Rightarrow> nat \<Rightarrow> nat \<Rightarrow> int \<Rightarrow> int \<Rightarrow> int \<Rightarrow> real list" where
  "facePositions x y z dx dy dz =
     (let fx = real x + 0.5 + of_int dx * 0.5;
          fy = real y + 0.5 + of_int dy * 0.5;
          fz = real z + 0.5 + of_int dz * 0.5;
          (t, b) = (if \<bar>real_of_int dy\<bar> > 0.5 then ((1, 0, 0), (0, 0, 1))
                    else if \<bar>real_of_int dx\<bar> > 0.5 then ((0, 0, 1), (0, 1, 0))
                    else ((1, 0, 0), (0, 1, 0)));
          (tx0, ty0, tz0) = t; (bx0, by0, bz0) = b;
          tx = tx0 * 0.5; ty = ty0 * 0.5; tz = tz0 * 0.5;
          bx = bx0 * 0.5; by = by0 * 0.5; bz = bz0 * 0.5
      in if dy > 0 then
           [fx - tx - bx, fy, fz - tz - bz,
            fx + tx - bx, fy, fz + tz - bz,
            fx + tx + bx, fy, fz + tz + bz,
            fx - tx + bx, fy, fz - tz + bz]
         else if dy < 0 then
           [fx - tx - bx, fy, fz - tz - bz,
            fx - tx + bx, fy, fz - tz + bz,
            fx + tx + bx, fy, fz + tz + bz,
            fx + tx - bx, fy, fz + tz - bz]
         else
           [fx - tx - bx, fy - ty - by, fz - tz - bz,
            fx + tx - bx, fy + ty - by, fz + tz - bz,
            fx + tx + bx, fy + ty + by, fz + tz + bz,
            fx - tx + bx, fy - ty + by, fz - tz + bz])"

definition faceNormals :: "int \<Rightarrow> int \<Rightarrow> int \<Rightarrow> real list" where
  "faceNormals dx dy dz =
     (if \<bar>real_of_int dx\<bar> > 0.5 then concat (replicate 4 [of_int dx, 0, 0])
      else if \<bar>real_of_int dy\<bar> > 0.5 then concat (replicate 4 [0, of_int dy, 0])
      else concat (replicate 4 [0, 0, of_int dz]))"

definition faceUvs :: "int \<Rightarrow> real list" where
  "faceUvs dy =
     (if dy > 0 then [0, 0, 1, 0, 1, 1, 0, 1]
      else if dy < 0 then [0, 0, 0, 1, 1, 1, 1, 0]
      else [0, 0, 1, 0, 1, 1, 0, 1])"

definition faceIndices :: "nat \<Rightarrow> int \<Rightarrow> nat list" where
  "faceIndices vOffset dy =
     (if dy > 0 then [vOffset, vOffset + 1, vOffset + 2, vOffset, vOffset + 2, vOffset + 3]
      else if dy < 0 then [vOffset, vOffset + 3, vOffset + 2, vOffset, vOffset + 2, vOffset + 1]
      else [vOffset, vOffset + 1, vOffset + 2, vOffset, vOffset + 2, vOffset + 3])"

text \<open>
  The body of \<open>if (this.isFaceVisible(...))\<close>: create the batch of the key when it is
  missing (at the end, as a JavaScript Map does), then push the quad into it.
\<close>

definition pushFace :: "(GeoKey \<times> Geo) list \<Rightarrow> BlockType \<times> nat \<times> nat \<times> nat \<times> nat \<Rightarrow> (GeoKey \<times> Geo) list" where
  "pushFace gs f =
     (let (blockType, x, y, z, i) = f;
          (dx, dy, dz) = directions ! i;
          geoKey = (blockType, i);
          gs1 = (if map_of gs geoKey = None
                 then gs @ [(geoKey, \<lparr>positions = [], normals = [], uvs = [], indices = []\<rparr>)]
                 else gs)
      in map (\<lambda>(k, geo).
                if k = geoKey then
                  (let vOffset = length (positions geo) div 3
                   in (k, \<lparr>positions = positions geo @ facePositions x y z dx dy dz,
                           normals = normals geo @ faceNormals dx dy dz,
                           uvs = uvs geo @ faceUvs dy,
                           indices = indices geo @ faceIndices vOffset dy\<rparr>))
                else (k, geo)) gs1)"

text \<open>
  The faces for which the loop nest of \<open>updateMesh\<close> reaches that body, in the order of
  the loops: \<open>x\<close>, then \<open>y\<close>, then \<open>z\<close>, then the direction index \<open>i\<close>. Air voxels are
  skipped by the \<open>continue\<close>.
\<close>

definition voxelFaces ::
  "(int \<Rightarrow> int \<Rightarrow> int \<Rightarrow> BlockType) \<Rightarrow> Chunk \<Rightarrow> nat \<Rightarrow> nat \<Rightarrow> nat \<Rightarrow> (BlockType \<times> nat \<times> nat \<times> nat \<times> nat) list" where
  "voxelFaces wget c x y z =
     (let blockType = blocks c ! x ! y ! z
      in if blockType = AIR then []
         else map (\<lambda>i. (blockType, x, y, z, i))
                (filter (\<lambda>i. case directions ! i of (dx, dy, dz) \<Rightarrow> Chunk_isFaceVisible wget c x y z dx dy dz)
                   [0..<length directions]))"

definition emittedFaces ::
  "(int \<Rightarrow> int \<Rightarrow> int \<Rightarrow> BlockType) \<Rightarrow> Chunk \<Rightarrow> (BlockType \<times> nat \<times> nat \<times> nat \<times> nat) list" where
  "emittedFaces wget c =
     concat (map (\<lambda>x. concat (map (\<lambda>y. concat (map (\<lambda>z. voxelFaces wget c x y z)
        [0..<size_c c])) [0..<height_c c])) [0..<size_c c])"

text \<open>
  \<open>updateMesh\<close>: the old children are cleared and the batches are rebuilt from scratch.
  Materials and textures do not influence which quads exist and are not modelled.
\<close>

definition Chunk_updateMesh :: "(int \<Rightarrow> int \<Rightarrow> int \<Rightarrow> BlockType) \<Rightarrow> Chunk \<Rightarrow> Chunk" where
  "Chunk_updateMesh wget c =
     c\<lparr>mesh := foldl pushFace [] (emittedFaces wget c), meshBuilds := Suc (meshBuilds c)\<rparr>"

text \<open>
  \<open>setBlock\<close>. The mesh is rebuilt after the write, and the rebuild reads the world in
  which this chunk already holds the new voxel: \<open>view c'\<close> is the world's read once the
  chunk has become \<open>c'\<close>.
\<close>

definition Chunk_setBlock ::
  "(Chunk \<Rightarrow> int \<Rightarrow> int \<Rightarrow> int \<Rightarrow> BlockType) \<Rightarrow> Chunk \<Rightarrow> int \<Rightarrow> int \<Rightarrow> int \<Rightarrow> BlockType \<Rightarrow> Chunk" where
  "Chunk_setBlock view c x y z t =
     (if outside c x y z then c
      else (let c' = c\<lparr>blocks := set3 (blocks c) (nat x) (nat y) (nat z) t\<rparr>
            in Chunk_updateMesh (view c') c'))"

subsection \<open>Terrain generation\<close>

definition Chunk_getTerrainHeight :: "Chunk \<Rightarrow> int \<Rightarrow> int \<Rightarrow> real" where
  "Chunk_getTerrainHeight c x z =
     (let largeScale = 0.01; largeMagnitude = 20;
          largeNoise = noise (simplex c) (of_int x * largeScale) (of_int z * largeScale) * largeMagnitude;
          mediumScale = 0.05; mediumMagnitude = 10;
          mediumNoise = noise (simplex c) (of_int x * mediumScale) (of_int z * mediumScale) * mediumMagnitude;
          smallScale = 0.2; smallMagnitude = 3;
          smallNoise = noise (simplex c) (of_int x * smallScale) (of_int z * smallScale) * smallMagnitude;
          baseHeight = 10;
          terrainHeight = baseHeight + largeNoise + mediumNoise + smallNoise
      in max 1 (min (real (height_c c) - 1) terrainHeight))"

text \<open>
  The chain of tests in the loop over \<open>y\<close>: the kind written at height \<open>y\<close> of a column
  whose terrain height is \<open>terrainHeight\<close>. Every branch assigns.
\<close>

definition columnBlock :: "real \<Rightarrow> nat \<Rightarrow> BlockType" where
  "columnBlock terrainHeight y =
     (if y = 0 then BEDROCK
      else if real y < terrainHeight - 4 then STONE
      else if real y < terrainHeight - 1 then DIRT
      else if int y = \<lfloor>terrainHeight - 1\<rfloor> then
        (if terrainHeight < 12 then SAND
         else if terrainHeight > 24 then STONE
         else GRASS)
      else if y < 10 \<and> terrainHeight < 10 then WATER
      else AIR)"

definition fillColumn :: "real \<Rightarrow> nat \<Rightarrow> nat \<Rightarrow> Chunk \<Rightarrow> Chunk" where
  "fillColumn terrainHeight x z c =
     c\<lparr>blocks := fold (\<lambda>y b. set3 b x y z (columnBlock terrainHeight y)) [0..<height_c c] (blocks c)\<rparr>"

text \<open>The test \<open>Math.sqrt(lX * lX + lY * lY + lZ * lZ) <= leafRadius\<close> with radius 2.\<close>

definition inLeafSphere :: "int \<Rightarrow> int \<Rightarrow> int \<Rightarrow> bool" where
  "inLeafSphere lX lY lZ = (sqrt (of_int (lX * lX + lY * lY + lZ * lZ)) \<le> 2)"

definition leafOffsets :: "(int \<times> int \<times> int) list" where
  "leafOffsets = concat (map (\<lambda>lX. concat (map (\<lambda>lY. map (\<lambda>lZ. (lX, lY, lZ)) [-2..2]) [-2..2])) [-2..2])"

definition placeLeaf :: "Chunk \<Rightarrow> nat \<Rightarrow> int \<Rightarrow> nat \<Rightarrow> int \<Rightarrow> int \<times> int \<times> int \<Rightarrow> BlockType list list list \<Rightarrow> BlockType list list list" where
  "placeLeaf c x y z trunkHeight l b =
     (let (lX, lY, lZ) = l
      in if inLeafSphere lX lY lZ then
           (let worldX = int x + lX; worldY = y + trunkHeight + lY; worldZ = int z + lZ
            in if worldX \<ge> 0 \<and> worldX < int (size_c c) \<and> worldY \<ge> 0 \<and> worldY < int (height_c c)
                  \<and> worldZ \<ge> 0 \<and> worldZ < int (size_c c)
               then (if \<not> (lX = 0 \<and> lZ = 0 \<and> lY < 0)
                     then set3 b (nat worldX) (nat worldY) (nat worldZ) LEAVES else b)
               else b)
         else b)"

text \<open>
  \<open>generateTree\<close>, called with \<open>y = Math.floor(terrainHeight)\<close>, which is at least 1. The
  trunk height is drawn from \<open>Math.random()\<close> only after the space check has passed.
\<close>

definition Chunk_generateTree :: "Random \<Rightarrow> Chunk \<Rightarrow> nat \<Rightarrow> int \<Rightarrow> nat \<Rightarrow> Chunk \<times> Random" where
  "Chunk_generateTree r c x y z =
     (if int x < 2 \<or> int x \<ge> int (size_c c) - 2 \<or> int z < 2 \<or> int z \<ge> int (size_c c) - 2
         \<or> y + 5 \<ge> int (height_c c)
      then (c, r)
      else (let (rnd, r') = Math_random r;
                trunkHeight = 4 + \<lfloor>rnd * 3\<rfloor>;
                b1 = fold (\<lambda>tY b. set3 b x (nat (y + tY)) z WOOD) [0..trunkHeight - 1] (blocks c);
                b2 = fold (placeLeaf c x y z trunkHeight) leafOffsets b1
            in (c\<lparr>blocks := b2\<rparr>, r')))"

text \<open>The body of the two outer loops of \<open>generate\<close> for the column \<open>(x, z)\<close>.\<close>

definition generateColumn :: "nat \<Rightarrow> nat \<Rightarrow> Chunk \<times> Random \<Rightarrow> Chunk \<times> Random" where
  "generateColumn x z cr =
     (let (c, r) = cr;
          worldX = chunkX c * int (size_c c);
          worldZ = chunkZ c * int (size_c c);
          absX = worldX + int x;
          absZ = worldZ + int z;
          terrainHeight = Chunk_getTerrainHeight c absX absZ;
          c1 = fillColumn terrainHeight x z c
      in if blocks c1 ! x ! nat \<lfloor>terrainHeight - 1\<rfloor> ! z = GRASS then
           (let (rnd, r1) = Math_random r
            in if rnd < 0.02 then Chunk_generateTree r1 c1 x \<lfloor>terrainHeight\<rfloor> z else (c1, r1))
         else (c1, r))"

datatype error = TypeError

text \<open>
  \<open>generate\<close>. With a height of 0 the first column already reads
  \<open>this.blocks[x][0][z]\<close> from an empty array and the call throws; in every other case all
  accesses are inside the array the constructor made.
\<close>

definition Chunk_generate ::
  "(Chunk \<Rightarrow> int \<Rightarrow> int \<Rightarrow> int \<Rightarrow> BlockType) \<Rightarrow> Random \<Rightarrow> Chunk \<Rightarrow> error + (Chunk \<times> Random)" where
  "Chunk_generate view r c =
     (if height_c c = 0 \<and> size_c c > 0 then Inl TypeError
      else (let (c1, r1) = fold (\<lambda>x. fold (\<lambda>z. generateColumn x z) [0..<size_c c]) [0..<size_c c] (c, r)
            in Inr (Chunk_updateMesh (view c1) c1, r1)))"


section \<open>World.ts\<close>

definition CHUNK_SIZE :: nat where
  "CHUNK_SIZE = 16"

definition WORLD_HEIGHT :: nat where
  "WORLD_HEIGHT = 128"

definition RENDER_DISTANCE :: int where
  "RENDER_DISTANCE = 3"

text \<open>
  The map \<open>chunks\<close>. Its string keys \<open>`${chunkX},${chunkZ}`\<close> are the pairs of chunk
  coordinates; the order of a JavaScript Map is not observable in any result below.
\<close>

record World =
  chunks :: "int \<times> int \<Rightarrow> Chunk option"

text \<open>
  The coordinate arithmetic that \<open>getBlock\<close> and \<open>setBlock\<close> repeat for \<open>x\<close> and for \<open>z\<close>:
  \<open>Math.floor(x / CHUNK_SIZE)\<close>, \<open>Math.floor(x % CHUNK_SIZE)\<close> and the adjustment
  \<open>localX < 0 ? localX + CHUNK_SIZE : localX\<close>.
\<close>

definition chunkCoord :: "int \<Rightarrow> int" where
  "chunkCoord x = \<lfloor>real_of_int x / real CHUNK_SIZE\<rfloor>"

definition localCoord :: "int \<Rightarrow> int" where
  "localCoord x = js_rem x (int CHUNK_SIZE)"

definition adjustedLocal :: "int \<Rightarrow> int" where
  "adjustedLocal x = (let l = localCoord x in if l < 0 then l + int CHUNK_SIZE else l)"

definition World_getBlock :: "World \<Rightarrow> int \<Rightarrow> int \<Rightarrow> int \<Rightarrow> BlockType" where
  "World_getBlock w x y z =
     (if y < 0 \<or> y \<ge> int WORLD_HEIGHT then AIR
      else (let chunkKey = (chunkCoord x, chunkCoord z)
            in case chunks w chunkKey of
                 None \<Rightarrow> AIR
               | Some chunk \<Rightarrow> Chunk_getBlock chunk (adjustedLocal x) y (adjustedLocal z)))"

text \<open>
  A method call on a chunk held in the map changes the object the map refers to. The
  world a chunk sees through \<open>this.world\<close> while it is changing is the map with that
  chunk replaced.
\<close>

definition putChunk :: "World \<Rightarrow> int \<times> int \<Rightarrow> Chunk \<Rightarrow> World" where
  "putChunk w k c = w\<lparr>chunks := (chunks w)(k \<mapsto> c)\<rparr>"

definition worldView :: "World \<Rightarrow> int \<times> int \<Rightarrow> Chunk \<Rightarrow> int \<Rightarrow> int \<Rightarrow> int \<Rightarrow> BlockType" where
  "worldView w k c = World_getBlock (putChunk w k c)"

definition neighborDirections :: "(int \<times> int) list" where
  "neighborDirections = [(-1, 0), (1, 0), (0, -1), (0, 1)]"

text \<open>
  \<open>updateNeighborChunksIfNeeded\<close>. The boundary test uses the remainders as they are,
  without the adjustment for negative coordinates.
\<close>

definition updateNeighbor :: "int \<Rightarrow> int \<Rightarrow> int \<times> int \<Rightarrow> World \<Rightarrow> World" where
  "updateNeighbor cx cz d w =
     (let (dx, dz) = d; neighborKey = (cx + dx, cz + dz)
      in case chunks w neighborKey of
           None \<Rightarrow> w
         | Some neighborChunk \<Rightarrow>
             putChunk w neighborKey (Chunk_updateMesh (World_getBlock w) neighborChunk))"

definition World_updateNeighborChunksIfNeeded :: "World \<Rightarrow> int \<Rightarrow> int \<Rightarrow> int \<Rightarrow> World" where
  "World_updateNeighborChunksIfNeeded w x y z =
     (let localX = localCoord x; localZ = localCoord z
      in if localX = 0 \<or> localX = int CHUNK_SIZE - 1 \<or> localZ = 0 \<or> localZ = int CHUNK_SIZE - 1
         then fold (updateNeighbor (chunkCoord x) (chunkCoord z)) neighborDirections w
         else w)"

definition World_setBlock :: "World \<Rightarrow> int \<Rightarrow> int \<Rightarrow> int \<Rightarrow> BlockType \<Rightarrow> World" where
  "World_setBlock w x y z t =
     (if y < 0 \<or> y \<ge> int WORLD_HEIGHT then w
      else (let chunkKey = (chunkCoord x, chunkCoord z)
            in case chunks w chunkKey of
                 None \<Rightarrow> w
               | Some chunk \<Rightarrow>
                   (let w1 = putChunk w chunkKey
                               (Chunk_setBlock (worldView w chunkKey) chunk (adjustedLocal x) y (adjustedLocal z) t)
                    in World_updateNeighborChunksIfNeeded w1 x y z)))"

definition World_generateChunk :: "Random \<Rightarrow> World \<Rightarrow> int \<Rightarrow> int \<Rightarrow> error + (World \<times> Random)" where
  "World_generateChunk r w cx cz =
     (let chunkKey = (cx, cz)
      in if chunks w chunkKey \<noteq> None then Inr (w, r)
         else (let (chunk0, r1) = Chunk_new r cx cz CHUNK_SIZE WORLD_HEIGHT;
                   chunk = Chunk_setWorld chunk0;
                   w1 = putChunk w chunkKey chunk
               in case Chunk_generate (worldView w1 chunkKey) r1 chunk of
                    Inl e \<Rightarrow> Inl e
                  | Inr (chunk', r2) \<Rightarrow> Inr (putChunk w1 chunkKey chunk', r2)))"

text \<open>A sequence of \<open>generateChunk\<close> calls; an exception ends it.\<close>

fun generateChunks :: "(int \<times> int) list \<Rightarrow> World \<times> Random \<Rightarrow> error + (World \<times> Random)" where
  "generateChunks [] wr = Inr wr"
| "generateChunks (k # ks) wr =
     (case World_generateChunk (snd wr) (fst wr) (fst k) (snd k) of
        Inl e \<Rightarrow> Inl e
      | Inr wr' \<Rightarrow> generateChunks ks wr')"

text \<open>The square of chunk coordinates around \<open>(cx, cz)\<close>, in the order of the two loops.\<close>

definition squareAround :: "int \<Rightarrow> int \<Rightarrow> (int \<times> int) list" where
  "squareAround cx cz =
     concat (map (\<lambda>x. map (\<lambda>z. (x, z)) [cz - RENDER_DISTANCE..cz + RENDER_DISTANCE])
        [cx - RENDER_DISTANCE..cx + RENDER_DISTANCE])"

text \<open>The constructor: an empty map, then \<open>generateInitialChunks\<close>.\<close>

definition World_new :: "Random \<Rightarrow> error + (World \<times> Random)" where
  "World_new r = generateChunks (squareAround 0 0) (\<lparr>chunks = Map.empty\<rparr>, r)"

type_synonym Vector3 = "real \<times> real \<times> real"

text \<open>
  \<open>update\<close>: collect the required keys and those of them that are missing, generate
  the missing chunks, then delete every entry whose key is not required.
\<close>

definition World_update :: "Random \<Rightarrow> World \<Rightarrow> Vector3 \<Rightarrow> error + (World \<times> Random)" where
  "World_update r w playerPos =
     (let (px, py, pz) = playerPos;
          currentPlayerChunkX = \<lfloor>px / real CHUNK_SIZE\<rfloor>;
          currentPlayerChunkZ = \<lfloor>pz / real CHUNK_SIZE\<rfloor>;
          required = squareAround currentPlayerChunkX currentPlayerChunkZ;
          requiredChunks = set required;
          chunksToLoad = filter (\<lambda>k. chunks w k = None) required
      in case generateChunks chunksToLoad (w, r) of
           Inl e \<Rightarrow> Inl e
         | Inr (w1, r1) \<Rightarrow> Inr (w1\<lparr>chunks := chunks w1 |` requiredChunks\<rparr>, r1))"

subsection \<open>Ray casting\<close>

text \<open>
  \<open>Vector3.normalize\<close> of three.js divides by the length, or by 1 when the length is 0.
\<close>

definition normalize :: "Vector3 \<Rightarrow> Vector3" where
  "normalize v =
     (let (vx, vy, vz) = v;
          len = sqrt (vx * vx + vy * vy + vz * vz);
          d = (if len = 0 then 1 else len)
      in (vx / d, vy / d, vz / d))"

record Hit =
  position :: "int \<times> int \<times> int"
  normal :: "int \<times> int \<times> int"
  blockType :: BlockType

definition step :: real where
  "step = 0.1"

text \<open>
  The loop \<open>for (let i = 0; i < maxSteps; i++)\<close>: sample the voxel under the current
  position, return at the first one that is not air, otherwise advance by one step.
\<close>

function march :: "World \<Rightarrow> Vector3 \<Rightarrow> real \<Rightarrow> nat \<Rightarrow> Vector3 \<Rightarrow> Hit option" where
  "march w ray maxSteps i currentPos =
     (if real i < maxSteps then
        (let (cx, cy, cz) = currentPos; (rx, ry, rz) = ray;
             x = \<lfloor>cx\<rfloor>; y = \<lfloor>cy\<rfloor>; z = \<lfloor>cz\<rfloor>;
             bt = World_getBlock w x y z
         in if bt \<noteq> AIR then
              (let px = cx - rx * step; py = cy - ry * step; pz = cz - rz * step;
                   dx = \<lfloor>px\<rfloor> - x; dy = \<lfloor>py\<rfloor> - y; dz = \<lfloor>pz\<rfloor> - z
               in Some \<lparr>position = (x, y, z), normal = (dx, dy, dz), blockType = bt\<rparr>)
            else march w ray maxSteps (Suc i) (cx + rx * step, cy + ry * step, cz + rz * step))
      else None)"
  by pat_completeness auto
termination
proof (relation "measure (\<lambda>(w, ray, maxSteps, i, currentPos). nat \<lceil>maxSteps\<rceil> - i)", goal_cases)
  case 1
  show ?case by simp
next
  case (2 w ray maxSteps i currentPos)
  have "real i < maxSteps" by (rule 2(1))
  also have "maxSteps \<le> of_int \<lceil>maxSteps\<rceil>" by (rule le_of_int_ceiling)
  finally have "real_of_int (int i) < of_int \<lceil>maxSteps\<rceil>" by simp
  hence "int i < \<lceil>maxSteps\<rceil>" by (simp only: of_int_less_iff)
  hence "i < nat \<lceil>maxSteps\<rceil>" by linarith
  thus ?case by simp
qed

definition World_raycast :: "World \<Rightarrow> Vector3 \<Rightarrow> Vector3 \<Rightarrow> real \<Rightarrow> Hit option" where
  "World_raycast w origin direction maxDistance =
     (let maxSteps = maxDistance / step;
          ray = normalize direction
      in march w ray maxSteps 0 origin)"


section \<open>Invariants and sample states\<close>

text \<open>
  Every chunk the world creates has the world's dimensions, sits under the key of its own
  coordinates and has its world reference set.
\<close>

definition wf_world :: "World \<Rightarrow> bool" where
  "wf_world w =
     (\<forall>k c. chunks w k = Some c \<longrightarrow>
        wf_chunk c \<and> size_c c = CHUNK_SIZE \<and> height_c c = WORLD_HEIGHT
        \<and> chunkX c = fst k \<and> chunkZ c = snd k \<and> hasWorld c)"

text \<open>The set of chunk coordinates within the render distance of \<open>(cx, cz)\<close>.\<close>

definition withinRenderDistance :: "int \<Rightarrow> int \<Rightarrow> (int \<times> int) set" where
  "withinRenderDistance cx cz =
     {k. max \<bar>fst k - cx\<bar> \<bar>snd k - cz\<bar> \<le> RENDER_DISTANCE}"

text \<open>A random source whose draws are all \<open>v\<close>.\<close>

definition constantDraws :: "real \<Rightarrow> Random" where
  "constantDraws v = \<lparr>draws = (\<lambda>n. v), drawn = 0\<rparr>"

text \<open>A chunk as the world holds it right after construction, before \<open>generate\<close>.\<close>

definition airChunk :: "int \<Rightarrow> int \<Rightarrow> Chunk" where
  "airChunk cx cz = Chunk_setWorld (fst (Chunk_new (constantDraws 0) cx cz CHUNK_SIZE WORLD_HEIGHT))"

definition oneChunkWorld :: World where
  "oneChunkWorld = \<lparr>chunks = [(0, 0) \<mapsto> airChunk 0 0]\<rparr>"

definition twoChunkWorld :: World where
  "twoChunkWorld = \<lparr>chunks = [(-1, 0) \<mapsto> airChunk (-1) 0, (0, 0) \<mapsto> airChunk 0 0]\<rparr>"


text \<open>
  A chunk is generated for the key \<open>k\<close> when it is what \<open>generate\<close> returns on a chunk
  that the world has just constructed for \<open>k\<close> and attached to itself.
\<close>

definition isGenerated :: "Chunk \<Rightarrow> int \<times> int \<Rightarrow> bool" where
  "isGenerated c k =
     (\<exists>r view r'.
        Chunk_generate view (snd (Chunk_new r (fst k) (snd k) CHUNK_SIZE WORLD_HEIGHT))
          (Chunk_setWorld (fst (Chunk_new r (fst k) (snd k) CHUNK_SIZE WORLD_HEIGHT))) = Inr (c, r'))"

text \<open>
  The column of the ray scenario, placed at local \<open>x = 0\<close>, \<open>z = 0\<close> of chunk \<open>(0, 0)\<close>:
  stone at every height except \<open>y = 50\<close>, which is air. The rest of the chunk is air.
\<close>

definition stoneColumn :: "BlockType list list" where
  "stoneColumn =
     map (\<lambda>y. (replicate CHUNK_SIZE AIR)[0 := (if y = 50 then AIR else STONE)]) [0..<WORLD_HEIGHT]"

definition columnChunk :: Chunk where
  "columnChunk = (airChunk 0 0)\<lparr>blocks := (blocks (airChunk 0 0))[0 := stoneColumn]\<rparr>"

definition columnWorld :: World where
  "columnWorld = \<lparr>chunks = [(0, 0) \<mapsto> columnChunk]\<rparr>"







text \<open>
  \<open>new Chunk(...)\<close> followed by \<open>generate()\<close> on the new chunk, the only way the program
  generates terrain.
\<close>

definition freshGenerate ::
  "(Chunk \<Rightarrow> int \<Rightarrow> int \<Rightarrow> int \<Rightarrow> BlockType) \<Rightarrow> Random \<Rightarrow> int \<Rightarrow> int \<Rightarrow> nat \<Rightarrow> nat \<Rightarrow> error + (Chunk \<times> Random)" where
  "freshGenerate view r cx cz sz h = (let (c, r') = Chunk_new r cx cz sz h in Chunk_generate view r' c)"

text \<open>A random source whose first draw is \<open>s\<close> and whose later draws are all \<open>v\<close>.\<close>

definition seededDraws :: "real \<Rightarrow> real \<Rightarrow> Random" where
  "seededDraws s v = \<lparr>draws = (\<lambda>n. if n = 0 then s else v), drawn = 0\<rparr>"

text \<open>
  The terrain height \<open>generate\<close> computes for the column at local \<open>(x, z)\<close>, and the kind its
  fill loop writes at height \<open>Math.floor(terrainHeight - 1)\<close>, the voxel that the tree test
  compares with grass.
\<close>

definition columnHeight :: "Chunk \<Rightarrow> nat \<Rightarrow> nat \<Rightarrow> real" where
  "columnHeight c x z =
     Chunk_getTerrainHeight c (chunkX c * int (size_c c) + int x) (chunkZ c * int (size_c c) + int z)"

definition surfaceKind :: "Chunk \<Rightarrow> nat \<Rightarrow> nat \<Rightarrow> BlockType" where
  "surfaceKind c x z = columnBlock (columnHeight c x z) (nat \<lfloor>columnHeight c x z - 1\<rfloor>)"

text \<open>The columns of a chunk in the order in which \<open>generate\<close> visits them.\<close>

definition allColumns :: "nat \<Rightarrow> (nat \<times> nat) list" where
  "allColumns sz = concat (map (\<lambda>x. map (Pair x) [0..<sz]) [0..<sz])"

definition noGrass :: "Chunk \<Rightarrow> bool" where
  "noGrass c = list_all (\<lambda>xz. surfaceKind c (fst xz) (snd xz) \<noteq> GRASS) (allColumns (size_c c))"

text \<open>The part of \<open>generate\<close>'s loop body that does not involve \<open>Math.random()\<close>.\<close>

definition terrainColumn :: "nat \<times> nat \<Rightarrow> Chunk \<Rightarrow> Chunk" where
  "terrainColumn xz c = fillColumn (columnHeight c (fst xz) (snd xz)) (fst xz) (snd xz) c"

text \<open>Two chunks that agree in everything the terrain height depends on.\<close>

definition sameShape :: "Chunk \<Rightarrow> Chunk \<Rightarrow> bool" where
  "sameShape c c' =
     (size_c c' = size_c c \<and> height_c c' = height_c c \<and> simplex c' = simplex c
      \<and> chunkX c' = chunkX c \<and> chunkZ c' = chunkZ c)"

text \<open>No draw from the next one on lets the tree test \<open>Math.random() < 0.02\<close> pass.\<close>

definition noTreeDraws :: "Random \<Rightarrow> bool" where
  "noTreeDraws r = (\<forall>n \<ge> drawn r. \<not> draws r n < 0.02)"

text \<open>The voxel array of a chunk constructed and generated from the random source \<open>r\<close>.\<close>

definition generatedBlocks ::
  "(Chunk \<Rightarrow> int \<Rightarrow> int \<Rightarrow> int \<Rightarrow> BlockType) \<Rightarrow> Random \<Rightarrow> int \<Rightarrow> int \<Rightarrow> nat \<Rightarrow> nat \<Rightarrow> BlockType list list list option" where
  "generatedBlocks view r cx cz sz h =
     (case freshGenerate view r cx cz sz h of Inl e \<Rightarrow> None | Inr cr \<Rightarrow> Some (blocks (fst cr)))"

text \<open>
  The noise of a source made from the seed integer \<open>seed\<close>, with each table entry computed
  where it is looked up: entry \<open>i\<close> of \<open>perm\<close> is \<open>permEntry seed (i mod 256)\<close>, and entry \<open>i\<close>
  of \<open>gradP\<close> is the gradient selected by that entry.
\<close>

definition permAt :: "int \<Rightarrow> int \<Rightarrow> int" where
  "permAt seed i = permEntry seed (nat i mod 256)"

definition gradAt :: "int \<Rightarrow> int \<Rightarrow> int list" where
  "gradAt seed i = grad3 ! nat (js_rem (permAt seed i) 12)"

definition noiseAt :: "int \<Rightarrow> real \<Rightarrow> real \<Rightarrow> real" where
  "noiseAt seed x0 y0 =
     (let X0 = \<lfloor>x0\<rfloor>; Y0 = \<lfloor>y0\<rfloor>;
          x = x0 - of_int X0; y = y0 - of_int Y0;
          X = X0 AND 255; Y = Y0 AND 255;
          n00 = dot (gradAt seed ((X + permAt seed Y) AND 511)) x y;
          n01 = dot (gradAt seed ((X + permAt seed (Y + 1)) AND 511)) x (y - 1);
          n10 = dot (gradAt seed ((X + 1 + permAt seed Y) AND 511)) (x - 1) y;
          n11 = dot (gradAt seed ((X + 1 + permAt seed (Y + 1)) AND 511)) (x - 1) (y - 1);
          u = fade x
      in lerp (lerp n00 n10 u) (lerp n01 n11 u) (fade y))"

text \<open>
  The terrain height at world column \<open>(x, z)\<close> for a chunk of height \<open>ht\<close> whose noise source
  was made from the seed integer \<open>seed\<close>.
\<close>

definition heightAt :: "int \<Rightarrow> nat \<Rightarrow> int \<Rightarrow> int \<Rightarrow> real" where
  "heightAt seed ht x z =
     max 1 (min (real ht - 1)
       (10 + noiseAt seed (of_int x * 0.01) (of_int z * 0.01) * 20
           + noiseAt seed (of_int x * 0.05) (of_int z * 0.05) * 10
           + noiseAt seed (of_int x * 0.2) (of_int z * 0.2) * 3))"

text \<open>Two random sources whose future draws are the same sequence.\<close>

definition sameDraws :: "Random \<Rightarrow> Random \<Rightarrow> bool" where
  "sameDraws r1 r2 = (\<forall>n. draws r1 (drawn r1 + n) = draws r2 (drawn r2 + n))"

text \<open>Every draw from the next one on is 0: each tree test passes, each trunk has height 4.\<close>

definition zeroDraws :: "Random \<Rightarrow> bool" where
  "zeroDraws r = (\<forall>n \<ge> drawn r. draws r n = 0)"

definition emptyWorld :: World where
  "emptyWorld = \<lparr>chunks = Map.empty\<rparr>"

section \<open>Coordinates\<close>

lemma chunkCoord_div: "chunkCoord x = x div 16"
  unfolding chunkCoord_def CHUNK_SIZE_def
  using floor_divide_of_int_eq[of x 16, where ?'a = real] by simp

lemma adjustedLocal_mod: "adjustedLocal x = x mod 16"
  unfolding adjustedLocal_def localCoord_def js_rem_def CHUNK_SIZE_def Let_def
  by (cases "x < 0") (auto simp: sgn_if zmod_zminus1_eq_if)


text \<open>
  Claim C2. For every integer world coordinate, negative ones included, the chunk
  coordinate computed by \<open>getBlock\<close> and \<open>setBlock\<close> is the floor of \<open>x / S\<close>, the adjusted
  local coordinate is the floored remainder and lies in \<open>[0, S)\<close>, and chunk times \<open>S\<close>
  plus local gives the coordinate back; the same holds for \<open>z\<close>.
\<close>

theorem coordinate_round_trip:
  "chunkCoord x * int CHUNK_SIZE + adjustedLocal x = x \<and>
   chunkCoord z * int CHUNK_SIZE + adjustedLocal z = z \<and>
   chunkCoord x = x div int CHUNK_SIZE \<and> adjustedLocal x = x mod int CHUNK_SIZE \<and>
   chunkCoord z = z div int CHUNK_SIZE \<and> adjustedLocal z = z mod int CHUNK_SIZE \<and>
   0 \<le> adjustedLocal x \<and> adjustedLocal x < int CHUNK_SIZE \<and>
   0 \<le> adjustedLocal z \<and> adjustedLocal z < int CHUNK_SIZE"
  by (simp add: chunkCoord_div adjustedLocal_mod CHUNK_SIZE_def)

section \<open>Voxel arrays and mesh rebuilds\<close>

lemma wf_blocks_iff:
  "wf_blocks sz h b \<longleftrightarrow>
     length b = sz \<and> (\<forall>i<sz. length (b ! i) = h \<and> (\<forall>j<h. length (b ! i ! j) = sz))"
  by (auto simp: wf_blocks_def all_set_conv_all_nth)

lemma set3_nth:
  assumes "wf_blocks sz h b" "x' < sz" "y' < h" "z' < sz"
  shows "set3 b x y z t ! x' ! y' ! z' = (if x' = x \<and> y' = y \<and> z' = z then t else b ! x' ! y' ! z')"
proof -
  from assms have len: "length b = sz" "length (b ! x') = h" "length (b ! x' ! y') = sz"
    by (simp_all add: wf_blocks_iff)
  show ?thesis
  proof (cases "x' = x")
    case False
    then show ?thesis by (simp add: set3_def)
  next
    case x: True
    show ?thesis
    proof (cases "y' = y")
      case False
      with x assms len show ?thesis by (simp add: set3_def)
    next
      case True
      with x assms len show ?thesis by (simp add: set3_def nth_list_update)
    qed
  qed
qed

lemma wf_blocks_set3: 
  assumes "wf_blocks sz h b" shows "wf_blocks sz h (set3 b x y z t)"
proof -
  from assms have len: "length b = sz" and 
    inner: "\<And>i j. i < sz \<Longrightarrow> length (b ! i) = h \<and> (j < h \<longrightarrow> length (b ! i ! j) = sz)"
    by (simp_all add: wf_blocks_iff)
  have "length (set3 b x y z t ! i) = h \<and> (\<forall>j<h. length (set3 b x y z t ! i ! j) = sz)" if i: "i < sz" for i
  proof (cases "i = x")
    case False
    with i inner show ?thesis by (simp add: set3_def)
  next
    case True
    have "length ((b ! x)[y := (b ! x ! y)[z := t]] ! j) = sz" if "j < h" for j
      using that inner[of x j] i True by (cases "j = y") (simp_all add: nth_list_update)
    with i True len inner[of x] show ?thesis by (simp add: set3_def)
  qed
  with len show ?thesis by (simp add: wf_blocks_iff set3_def)
qed

lemma Chunk_updateMesh_fields [simp]:
  "blocks (Chunk_updateMesh g c) = blocks c"
  "size_c (Chunk_updateMesh g c) = size_c c"
  "height_c (Chunk_updateMesh g c) = height_c c"
  "chunkX (Chunk_updateMesh g c) = chunkX c"
  "chunkZ (Chunk_updateMesh g c) = chunkZ c"
  "hasWorld (Chunk_updateMesh g c) = hasWorld c"
  "simplex (Chunk_updateMesh g c) = simplex c"
  "meshBuilds (Chunk_updateMesh g c) = Suc (meshBuilds c)"
  by (simp_all add: Chunk_updateMesh_def)

lemma outside_updateMesh [simp]: "outside (Chunk_updateMesh g c) = outside c"
  by (simp add: outside_def fun_eq_iff)

lemma Chunk_getBlock_updateMesh [simp]: "Chunk_getBlock (Chunk_updateMesh g c) = Chunk_getBlock c"
  by (simp add: Chunk_getBlock_def fun_eq_iff)

lemma wf_chunk_updateMesh [simp]: "wf_chunk (Chunk_updateMesh g c) = wf_chunk c"
  by (simp add: wf_chunk_def)

lemma updateNeighbor_chunks:
  "chunks (updateNeighbor cx cz (dx, dz) w) k =
     (if k = (cx + dx, cz + dz) then map_option (Chunk_updateMesh (World_getBlock w)) (chunks w k)
      else chunks w k)"
  by (simp add: updateNeighbor_def putChunk_def Let_def split: option.splits)

lemma World_getBlock_cong:
  assumes "\<And>k. map_option Chunk_getBlock (chunks w' k) = map_option Chunk_getBlock (chunks w k)"
  shows "World_getBlock w' = World_getBlock w"
proof (intro ext)
  fix x y z
  have "map_option Chunk_getBlock (chunks w' (chunkCoord x, chunkCoord z))
      = map_option Chunk_getBlock (chunks w (chunkCoord x, chunkCoord z))" by (rule assms)
  then show "World_getBlock w' x y z = World_getBlock w x y z"
    by (auto simp: World_getBlock_def split: option.splits)
qed

lemma World_getBlock_updateNeighbor [simp]:
  "World_getBlock (updateNeighbor cx cz d w) = World_getBlock w"
  by (cases d, rule World_getBlock_cong) (simp add: updateNeighbor_chunks option.map_comp comp_def)


lemma World_getBlock_fold_updateNeighbor [simp]:
  "World_getBlock (fold (updateNeighbor cx cz) ds w) = World_getBlock w"
  by (induction ds arbitrary: w) simp_all

lemma World_getBlock_updateNeighbors [simp]:
  "World_getBlock (World_updateNeighborChunksIfNeeded w x y z) = World_getBlock w"
  by (simp add: World_updateNeighborChunksIfNeeded_def Let_def)

section \<open>Reads and writes through the world\<close>

lemma not_outside_iff:
  "\<not> outside c x y z \<longleftrightarrow>
     0 \<le> x \<and> x < int (size_c c) \<and> 0 \<le> y \<and> y < int (height_c c) \<and> 0 \<le> z \<and> z < int (size_c c)"
  by (auto simp: outside_def)

lemma adjustedLocal_range: "0 \<le> adjustedLocal x" "adjustedLocal x < 16"
  by (simp_all add: adjustedLocal_mod)

lemma world_chunk_inside:
  assumes "size_c c = CHUNK_SIZE" "height_c c = WORLD_HEIGHT" "0 \<le> y" "y < int WORLD_HEIGHT"
  shows "\<not> outside c (adjustedLocal x) y (adjustedLocal z)"
  using assms adjustedLocal_range[of x] adjustedLocal_range[of z]
  by (simp add: not_outside_iff CHUNK_SIZE_def)

lemma Chunk_setBlock_inside:
  assumes "\<not> outside c x y z"
  shows "blocks (Chunk_setBlock view c x y z t) = set3 (blocks c) (nat x) (nat y) (nat z) t"
    and "size_c (Chunk_setBlock view c x y z t) = size_c c"
    and "height_c (Chunk_setBlock view c x y z t) = height_c c"
    and "meshBuilds (Chunk_setBlock view c x y z t) = Suc (meshBuilds c)"
  using assms by (simp_all add: Chunk_setBlock_def Let_def)

lemma Chunk_setBlock_get:
  assumes "\<not> outside c x y z" "wf_chunk c"
  shows "Chunk_getBlock (Chunk_setBlock view c x y z t) x y z = t"
proof -
  from assms(1) have r: "nat x < size_c c" "nat y < height_c c" "nat z < size_c c"
    by (auto simp: not_outside_iff)
  have o: "\<not> outside (Chunk_setBlock view c x y z t) x y z"
    using assms(1) by (simp add: outside_def Chunk_setBlock_inside[OF assms(1)])
  show ?thesis
    using set3_nth[OF assms(2)[unfolded wf_chunk_def] r, of "nat x" "nat y" "nat z" t] o
    by (simp add: Chunk_getBlock_def Chunk_setBlock_inside[OF assms(1)])
qed

lemma World_setBlock_loaded:
  assumes "0 \<le> y" "y < int WORLD_HEIGHT" "chunks w (chunkCoord x, chunkCoord z) = Some c"
  shows "World_setBlock w x y z t =
     World_updateNeighborChunksIfNeeded
       (putChunk w (chunkCoord x, chunkCoord z)
          (Chunk_setBlock (worldView w (chunkCoord x, chunkCoord z)) c (adjustedLocal x) y (adjustedLocal z) t))
       x y z"
  using assms by (simp add: World_setBlock_def Let_def)

lemma World_setBlock_dropped:
  assumes "y < 0 \<or> y \<ge> int WORLD_HEIGHT \<or> chunks w (chunkCoord x, chunkCoord z) = None"
  shows "World_setBlock w x y z t = w"
  using assms by (auto simp: World_setBlock_def Let_def)

lemma World_getBlock_air:
  assumes "y < 0 \<or> y \<ge> int WORLD_HEIGHT \<or> chunks w (chunkCoord x, chunkCoord z) = None"
  shows "World_getBlock w x y z = AIR"
  using assms by (auto simp: World_getBlock_def Let_def)

lemma World_getBlock_loaded:
  assumes "0 \<le> y" "y < int WORLD_HEIGHT" "chunks w (chunkCoord x, chunkCoord z) = Some c"
  shows "World_getBlock w x y z = Chunk_getBlock c (adjustedLocal x) y (adjustedLocal z)"
  using assms by (simp add: World_getBlock_def Let_def)

lemma World_setBlock_get:
  assumes "0 \<le> y" "y < int WORLD_HEIGHT"
    and "chunks w (chunkCoord x, chunkCoord z) = Some c"
    and c: "wf_chunk c" "size_c c = CHUNK_SIZE" "height_c c = WORLD_HEIGHT"
  shows "World_getBlock (World_setBlock w x y z k) x y z = k"
proof -
  let ?key = "(chunkCoord x, chunkCoord z)"
  let ?c' = "Chunk_setBlock (worldView w ?key) c (adjustedLocal x) y (adjustedLocal z) k"
  have ins: "\<not> outside c (adjustedLocal x) y (adjustedLocal z)"
    by (rule world_chunk_inside[OF c(2,3) assms(1,2)])
  have "World_getBlock (World_setBlock w x y z k) x y z = World_getBlock (putChunk w ?key ?c') x y z"
    by (simp add: World_setBlock_loaded[OF assms(1-3)])
  also have "\<dots> = Chunk_getBlock ?c' (adjustedLocal x) y (adjustedLocal z)"
    by (rule World_getBlock_loaded[OF assms(1,2)]) (simp add: putChunk_def)
  also have "\<dots> = k" by (rule Chunk_setBlock_get[OF ins c(1)])
  finally show ?thesis .
qed

text \<open>
  Claim C9. For every world coordinate with \<open>y\<close> in \<open>[0, H)\<close> whose owning chunk is
  loaded, and every voxel kind \<open>k\<close>, \<open>setBlock\<close> followed by \<open>getBlock\<close> at the same
  coordinate returns \<open>k\<close>; \<open>x\<close> and \<open>z\<close> range over all integers, negative ones included.
\<close>

theorem write_read_consistency:
  assumes "0 \<le> y" "y < int WORLD_HEIGHT"
    and "chunks w (chunkCoord x, chunkCoord z) = Some c"
    and "wf_world w"
  shows "World_getBlock (World_setBlock w x y z k) x y z = k"
proof -
  from assms(3,4) have "wf_chunk c" "size_c c = CHUNK_SIZE" "height_c c = WORLD_HEIGHT"
    by (auto simp: wf_world_def)
  then show ?thesis by (rule World_setBlock_get[OF assms(1-3)])
qed

text \<open>
  Claim C8. An access that is out of range degrades to a default. At the world level,
  when \<open>y\<close> is outside \<open>[0, H)\<close> or the owning chunk is missing, \<open>getBlock\<close> returns air
  whatever was written before and \<open>setBlock\<close> leaves the whole world (voxels and
  geometry of every chunk) as it was. At the chunk level, for a local coordinate outside
  the chunk, \<open>getBlock\<close> returns air and \<open>setBlock\<close> leaves the chunk as it was. Neither
  throws.
\<close>

theorem out_of_range_degradation:
  "(y < 0 \<or> y \<ge> int WORLD_HEIGHT \<or> chunks w (chunkCoord x, chunkCoord z) = None
      \<longrightarrow> World_getBlock w x y z = AIR \<and> World_setBlock w x y z t = w)
   \<and> (outside c lx ly lz
      \<longrightarrow> Chunk_getBlock c lx ly lz = AIR \<and> Chunk_setBlock view c lx ly lz t = c)"
  using World_getBlock_air[of y w x z] World_setBlock_dropped[of y w x z t]
  by (auto simp: Chunk_getBlock_def Chunk_setBlock_def)




subsection \<open>Sample states\<close>

lemma wf_blocks_replicate: "wf_blocks sz h (replicate sz (replicate h (replicate sz t)))"
  by (simp add: wf_blocks_iff)

lemma Chunk_new_fields:
  "size_c (fst (Chunk_new r cx cz sz h)) = sz"
  "height_c (fst (Chunk_new r cx cz sz h)) = h"
  "chunkX (fst (Chunk_new r cx cz sz h)) = cx"
  "chunkZ (fst (Chunk_new r cx cz sz h)) = cz"
  "blocks (fst (Chunk_new r cx cz sz h)) = replicate sz (replicate h (replicate sz AIR))"
  "meshBuilds (fst (Chunk_new r cx cz sz h)) = 0"
  "simplex (fst (Chunk_new r cx cz sz h)) = SimplexNoise_new (draws r (drawn r))"
  "snd (Chunk_new r cx cz sz h) = r\<lparr>drawn := Suc (drawn r)\<rparr>"
  by (simp_all add: Chunk_new_def Math_random_def)

lemma wf_chunk_new: "wf_chunk (fst (Chunk_new r cx cz sz h))"
  by (simp add: wf_chunk_def Chunk_new_fields wf_blocks_replicate)

lemma airChunk_fields:
  "size_c (airChunk cx cz) = CHUNK_SIZE"
  "height_c (airChunk cx cz) = WORLD_HEIGHT"
  "chunkX (airChunk cx cz) = cx"
  "chunkZ (airChunk cx cz) = cz"
  "hasWorld (airChunk cx cz)"
  "meshBuilds (airChunk cx cz) = 0"
  "wf_chunk (airChunk cx cz)"
  using wf_chunk_new[of "constantDraws 0" cx cz CHUNK_SIZE WORLD_HEIGHT]
  by (simp_all add: airChunk_def Chunk_setWorld_def Chunk_new_fields wf_chunk_def)

lemma wf_world_oneChunkWorld: "wf_world oneChunkWorld"
  by (auto simp: wf_world_def oneChunkWorld_def airChunk_fields split: if_splits)

lemma wf_world_twoChunkWorld: "wf_world twoChunkWorld"
  by (auto simp: wf_world_def twoChunkWorld_def airChunk_fields split: if_splits)

theorem write_read_consistency_witness:
  "(0::int) \<le> 5 \<and> 5 < int WORLD_HEIGHT
   \<and> chunks twoChunkWorld (chunkCoord (-1), chunkCoord 5) = Some (airChunk (-1) 0)
   \<and> wf_world twoChunkWorld
   \<and> World_getBlock (World_setBlock twoChunkWorld (-1) 5 5 STONE) (-1) 5 5 = STONE"
proof -
  have h: "(0::int) \<le> 5" "5 < int WORLD_HEIGHT"
    "chunks twoChunkWorld (chunkCoord (-1), chunkCoord 5) = Some (airChunk (-1) 0)"
    by (simp_all add: WORLD_HEIGHT_def twoChunkWorld_def chunkCoord_div)
  show ?thesis
    using h wf_world_twoChunkWorld write_read_consistency[OF h wf_world_twoChunkWorld, of STONE]
    by simp
qed

theorem out_of_range_degradation_witness:
  "World_getBlock oneChunkWorld 3 (-1) 3 = AIR
   \<and> World_setBlock oneChunkWorld 3 (-1) 3 STONE = oneChunkWorld
   \<and> World_getBlock oneChunkWorld 40 5 3 = AIR
   \<and> World_setBlock oneChunkWorld 40 5 3 STONE = oneChunkWorld
   \<and> outside (airChunk 0 0) 16 0 0
   \<and> Chunk_getBlock (airChunk 0 0) 16 0 0 = AIR
   \<and> Chunk_setBlock (worldView oneChunkWorld (0, 0)) (airChunk 0 0) 16 0 0 STONE = airChunk 0 0"
  using out_of_range_degradation[of "-1" oneChunkWorld 3 3 STONE "airChunk 0 0" 16 0 0 "worldView oneChunkWorld (0, 0)"]
    out_of_range_degradation[of 5 oneChunkWorld 40 3 STONE "airChunk 0 0" 16 0 0 "worldView oneChunkWorld (0, 0)"]
  by (simp add: outside_def airChunk_fields CHUNK_SIZE_def oneChunkWorld_def chunkCoord_div)




section \<open>Streaming chunks in and out\<close>

lemma Chunk_generate_Inr:
  "height_c c \<noteq> 0 \<Longrightarrow> \<exists>c' r'. Chunk_generate view r c = Inr (c', r')"
  by (simp add: Chunk_generate_def split_def Let_def)

lemma putChunk_chunks [simp]: "chunks (putChunk w k c) = (chunks w)(k \<mapsto> c)"
  by (simp add: putChunk_def)

lemma World_generateChunk_present:
  "chunks w (cx, cz) = Some c \<Longrightarrow> World_generateChunk r w cx cz = Inr (w, r)"
  by (simp add: World_generateChunk_def)

lemma World_generateChunk_absent:
  assumes "chunks w (cx, cz) = None"
  shows "\<exists>w' c' r'. World_generateChunk r w cx cz = Inr (w', r')
           \<and> chunks w' = (chunks w)((cx, cz) \<mapsto> c') \<and> isGenerated c' (cx, cz)"
proof -
  let ?new = "Chunk_new r cx cz CHUNK_SIZE WORLD_HEIGHT"
  let ?chunk = "Chunk_setWorld (fst ?new)"
  let ?w1 = "putChunk w (cx, cz) ?chunk"
  have "height_c ?chunk \<noteq> 0"
    by (simp add: Chunk_setWorld_def Chunk_new_fields WORLD_HEIGHT_def)
  then obtain c' r' where g: "Chunk_generate (worldView ?w1 (cx, cz)) (snd ?new) ?chunk = Inr (c', r')"
    using Chunk_generate_Inr by blast
  then have gen: "isGenerated c' (cx, cz)"
    unfolding isGenerated_def by auto
  have "World_generateChunk r w cx cz = Inr (putChunk ?w1 (cx, cz) c', r')"
    using assms g by (simp add: World_generateChunk_def split_def Let_def)
  moreover have "chunks (putChunk ?w1 (cx, cz) c') = (chunks w)((cx, cz) \<mapsto> c')"
    by simp
  ultimately show ?thesis using gen by blast
qed

lemma generateChunks_result:
  "\<exists>w' r'. generateChunks ks (w, r) = Inr (w', r')
     \<and> dom (chunks w') = dom (chunks w) \<union> set ks
     \<and> (\<forall>k c. chunks w k = Some c \<longrightarrow> chunks w' k = Some c)
     \<and> (\<forall>k. k \<in> set ks \<and> chunks w k = None \<longrightarrow> (\<exists>c. chunks w' k = Some c \<and> isGenerated c k))"
proof (induction ks arbitrary: w r)
  case Nil
  show ?case by simp
next
  case (Cons k ks)
  obtain cx cz where k: "k = (cx, cz)" by (cases k)
  show ?case
  proof (cases "chunks w k")
    case (Some c)
    then have "World_generateChunk r w (fst k) (snd k) = Inr (w, r)"
      by (simp add: k World_generateChunk_present)
    with Cons.IH[of w r] Some show ?thesis by auto
  next
    case None
    then obtain w1 c1 r1 where g: "World_generateChunk r w cx cz = Inr (w1, r1)"
      and w1: "chunks w1 = (chunks w)(k \<mapsto> c1)" and gen: "isGenerated c1 k"
      using World_generateChunk_absent[of w cx cz r] unfolding k by blast
    from Cons.IH[of w1 r1] obtain w' r' where
      r: "generateChunks ks (w1, r1) = Inr (w', r')"
      and d: "dom (chunks w') = dom (chunks w1) \<union> set ks"
      and keep: "\<And>k' c. chunks w1 k' = Some c \<Longrightarrow> chunks w' k' = Some c"
      and new: "\<And>k'. k' \<in> set ks \<Longrightarrow> chunks w1 k' = None \<Longrightarrow> \<exists>c. chunks w' k' = Some c \<and> isGenerated c k'"
      by blast
    have 1: "generateChunks (k # ks) (w, r) = Inr (w', r')"
      using g r by (simp add: k)
    have 2: "dom (chunks w') = dom (chunks w) \<union> set (k # ks)"
      using d w1 by auto
    have 3: "chunks w' k' = Some c" if "chunks w k' = Some c" for k' c
    proof -
      from that None have "k' \<noteq> k" by auto
      with that have "chunks w1 k' = Some c" by (simp add: w1)
      then show ?thesis by (rule keep)
    qed
    have 4: "\<exists>c. chunks w' k' = Some c \<and> isGenerated c k'" if "k' \<in> set (k # ks)" "chunks w k' = None" for k'
    proof (cases "k' = k")
      case True
      have "chunks w' k = Some c1" by (rule keep) (simp add: w1)
      with gen True show ?thesis by blast
    next
      case False
      with that have "k' \<in> set ks" "chunks w1 k' = None" by (simp_all add: w1)
      then show ?thesis by (rule new)
    qed
    from 1 2 3 4 show ?thesis by blast
  qed
qed

lemma set_squareAround: "set (squareAround cx cz) = withinRenderDistance cx cz"
proof -
  have "(a, b) \<in> set (squareAround cx cz) \<longleftrightarrow> (a, b) \<in> withinRenderDistance cx cz" for a b
  proof -
    have "(a, b) \<in> set (squareAround cx cz) \<longleftrightarrow> (cx - 3 \<le> a \<and> a \<le> cx + 3) \<and> (cz - 3 \<le> b \<and> b \<le> cz + 3)"
      by (force simp: squareAround_def RENDER_DISTANCE_def)
    also have "\<dots> \<longleftrightarrow> (a, b) \<in> withinRenderDistance cx cz"
      by (auto simp: withinRenderDistance_def RENDER_DISTANCE_def)
    finally show ?thesis .
  qed
  then show ?thesis by auto
qed

lemma dom_updateNeighbor [simp]: "dom (chunks (updateNeighbor cx cz d w)) = dom (chunks w)"
  by (cases d) (auto simp: updateNeighbor_chunks split: if_splits)

lemma dom_fold_updateNeighbor [simp]: "dom (chunks (fold (updateNeighbor cx cz) ds w)) = dom (chunks w)"
  by (induction ds arbitrary: w) simp_all

lemma dom_World_setBlock [simp]: "dom (chunks (World_setBlock w x y z t)) = dom (chunks w)"
  by (auto simp: World_setBlock_def World_updateNeighborChunksIfNeeded_def Let_def split: option.splits)


lemma World_update_result:
  "\<exists>w' r'. World_update r w (px, py, pz) = Inr (w', r')
     \<and> dom (chunks w') = withinRenderDistance \<lfloor>px / real CHUNK_SIZE\<rfloor> \<lfloor>pz / real CHUNK_SIZE\<rfloor>
     \<and> (\<forall>k \<in> withinRenderDistance \<lfloor>px / real CHUNK_SIZE\<rfloor> \<lfloor>pz / real CHUNK_SIZE\<rfloor>.
           case chunks w k of Some c \<Rightarrow> chunks w' k = Some c
           | None \<Rightarrow> (\<exists>c. chunks w' k = Some c \<and> isGenerated c k))"
proof -
  let ?cx = "\<lfloor>px / real CHUNK_SIZE\<rfloor>" and ?cz = "\<lfloor>pz / real CHUNK_SIZE\<rfloor>"
  let ?req = "squareAround ?cx ?cz"
  let ?load = "filter (\<lambda>k. chunks w k = None) ?req"
  from generateChunks_result[of ?load w r] obtain w1 r1 where
    r: "generateChunks ?load (w, r) = Inr (w1, r1)"
    and d: "dom (chunks w1) = dom (chunks w) \<union> set ?load"
    and keep: "\<And>k c. chunks w k = Some c \<Longrightarrow> chunks w1 k = Some c"
    and new: "\<And>k. k \<in> set ?load \<Longrightarrow> chunks w k = None \<Longrightarrow> \<exists>c. chunks w1 k = Some c \<and> isGenerated c k"
    by blast
  let ?w' = "w1\<lparr>chunks := chunks w1 |` set ?req\<rparr>"
  have 1: "World_update r w (px, py, pz) = Inr (?w', r1)"
    using r by (simp add: World_update_def Let_def)
  have "dom (chunks ?w') = (dom (chunks w) \<union> set ?load) \<inter> set ?req"
    by (simp add: d)
  also have "\<dots> = set ?req" by auto
  finally have 2: "dom (chunks ?w') = withinRenderDistance ?cx ?cz"
    by (simp add: set_squareAround)
  have 3: "case chunks w k of Some c \<Rightarrow> chunks ?w' k = Some c
           | None \<Rightarrow> (\<exists>c. chunks ?w' k = Some c \<and> isGenerated c k)"
    if "k \<in> withinRenderDistance ?cx ?cz" for k
  proof (cases "chunks w k")
    case None
    with that have "k \<in> set ?load" by (simp add: set_squareAround)
    from new[OF this None] that None show ?thesis by (simp add: set_squareAround)
  next
    case (Some c)
    from keep[OF Some] that Some show ?thesis by (simp add: set_squareAround)
  qed
  from 1 2 3 show ?thesis by blast
qed

text \<open>
  Claim C3. For every observer position, \<open>update\<close> returns, and afterwards the keys of the
  chunk map are exactly the chunk coordinates within Chebyshev distance
  \<open>RENDER_DISTANCE\<close> of the observer's chunk coordinate: every such key is present, a key
  that was missing before holds a chunk that has been generated, and no key outside the
  square remains.
\<close>

theorem streaming_convergence:
  "\<exists>w' r'. World_update r w (px, py, pz) = Inr (w', r')
     \<and> dom (chunks w') = withinRenderDistance \<lfloor>px / real CHUNK_SIZE\<rfloor> \<lfloor>pz / real CHUNK_SIZE\<rfloor>
     \<and> (\<forall>k \<in> withinRenderDistance \<lfloor>px / real CHUNK_SIZE\<rfloor> \<lfloor>pz / real CHUNK_SIZE\<rfloor>.
           chunks w k = None \<longrightarrow> (\<exists>c. chunks w' k = Some c \<and> isGenerated c k))"
proof -
  from World_update_result[of r w px py pz] obtain w' r' where
    "World_update r w (px, py, pz) = Inr (w', r')"
    "dom (chunks w') = withinRenderDistance \<lfloor>px / real CHUNK_SIZE\<rfloor> \<lfloor>pz / real CHUNK_SIZE\<rfloor>"
    "\<And>k. k \<in> withinRenderDistance \<lfloor>px / real CHUNK_SIZE\<rfloor> \<lfloor>pz / real CHUNK_SIZE\<rfloor> \<Longrightarrow>
           (case chunks w k of Some c \<Rightarrow> chunks w' k = Some c
           | None \<Rightarrow> (\<exists>c. chunks w' k = Some c \<and> isGenerated c k))"
    by blast
  then show ?thesis by (intro exI[of _ w'] exI[of _ r']) fastforce
qed

theorem streaming_convergence_witness:
  "\<exists>w' r'. World_update (constantDraws 0) oneChunkWorld (8, 30, 8) = Inr (w', r')
     \<and> dom (chunks w') = withinRenderDistance 0 0
     \<and> (1, 0) \<in> withinRenderDistance 0 0 \<and> chunks oneChunkWorld (1, 0) = None
     \<and> (4, 0) \<notin> dom (chunks w')
     \<and> (\<exists>c. chunks w' (1, 0) = Some c \<and> isGenerated c (1, 0))"
proof -
  have f: "\<lfloor>(8::real) / real CHUNK_SIZE\<rfloor> = 0" by (simp add: CHUNK_SIZE_def)
  have m: "(1, 0) \<in> withinRenderDistance 0 0" "(4, 0) \<notin> withinRenderDistance 0 0"
    by (simp_all add: withinRenderDistance_def RENDER_DISTANCE_def)
  have n: "chunks oneChunkWorld (1, 0) = None" by (simp add: oneChunkWorld_def)
  from streaming_convergence[of "constantDraws 0" oneChunkWorld 8 30 8]
  show ?thesis unfolding f using m n by auto
qed

text \<open>
  Claim C10. For a chunk that is loaded before \<open>update\<close> and whose key lies within the
  render distance of the observer's chunk coordinate, \<open>generateChunk\<close> is a no-op and
  \<open>update\<close> returns with the very same chunk under that key, so every voxel read in that
  chunk gives what it gave before, including what \<open>setBlock\<close> had written.
\<close>

theorem edits_persist_in_range:
  assumes "chunks w k = Some c"
    and "k \<in> withinRenderDistance \<lfloor>px / real CHUNK_SIZE\<rfloor> \<lfloor>pz / real CHUNK_SIZE\<rfloor>"
  shows "World_generateChunk r w (fst k) (snd k) = Inr (w, r)
       \<and> (\<exists>w' r'. World_update r w (px, py, pz) = Inr (w', r') \<and> chunks w' k = Some c
            \<and> (\<forall>x y z. (chunkCoord x, chunkCoord z) = k \<longrightarrow> World_getBlock w' x y z = World_getBlock w x y z))"
proof -
  have 1: "World_generateChunk r w (fst k) (snd k) = Inr (w, r)"
    using assms(1) World_generateChunk_present[of w "fst k" "snd k" c r] by simp
  from World_update_result[of r w px py pz] obtain w' r' where
    u: "World_update r w (px, py, pz) = Inr (w', r')"
    and "\<And>k. k \<in> withinRenderDistance \<lfloor>px / real CHUNK_SIZE\<rfloor> \<lfloor>pz / real CHUNK_SIZE\<rfloor> \<Longrightarrow>
           (case chunks w k of Some c \<Rightarrow> chunks w' k = Some c
           | None \<Rightarrow> (\<exists>c. chunks w' k = Some c \<and> isGenerated c k))"
    by blast
  from this(2)[OF assms(2)] assms(1) have c: "chunks w' k = Some c" by simp
  have "World_getBlock w' x y z = World_getBlock w x y z" if "(chunkCoord x, chunkCoord z) = k" for x y z
    using that c assms(1) by (auto simp: World_getBlock_def)
  with 1 u c show ?thesis by blast
qed

theorem edits_persist_in_range_witness:
  "chunks (World_setBlock oneChunkWorld 3 4 5 BRICK) (0, 0) \<noteq> None
   \<and> (0, 0) \<in> withinRenderDistance \<lfloor>(40::real) / real CHUNK_SIZE\<rfloor> \<lfloor>(-8::real) / real CHUNK_SIZE\<rfloor>
   \<and> (\<exists>w' r'. World_update (constantDraws 0) (World_setBlock oneChunkWorld 3 4 5 BRICK) (40, 30, -8) = Inr (w', r')
         \<and> chunks w' (0, 0) = chunks (World_setBlock oneChunkWorld 3 4 5 BRICK) (0, 0)
         \<and> World_getBlock w' 3 4 5 = BRICK)"
proof -
  let ?w = "World_setBlock oneChunkWorld 3 4 5 BRICK"
  have h: "(0::int) \<le> 4" "4 < int WORLD_HEIGHT"
    "chunks oneChunkWorld (chunkCoord 3, chunkCoord 5) = Some (airChunk 0 0)"
    by (simp_all add: WORLD_HEIGHT_def oneChunkWorld_def chunkCoord_div)
  have g: "World_getBlock ?w 3 4 5 = BRICK"
    by (rule World_setBlock_get[OF h airChunk_fields(7,1,2)])
  have "(0, 0) \<in> dom (chunks ?w)" by (simp add: oneChunkWorld_def)
  then obtain c where c: "chunks ?w (0, 0) = Some c" by blast
  have m: "(0, 0) \<in> withinRenderDistance \<lfloor>(40::real) / real CHUNK_SIZE\<rfloor> \<lfloor>(-8::real) / real CHUNK_SIZE\<rfloor>"
    by (simp add: withinRenderDistance_def RENDER_DISTANCE_def CHUNK_SIZE_def)
  from edits_persist_in_range[OF c m, of "constantDraws 0" 30]
  show ?thesis using c m g by (auto simp: chunkCoord_div)
qed

section \<open>Ray casting\<close>

lemma march_hit_first:
  assumes "World_getBlock w \<lfloor>ox\<rfloor> \<lfloor>oy\<rfloor> \<lfloor>oz\<rfloor> = bt" "bt \<noteq> AIR" "real i < maxSteps"
  shows "march w (rx, ry, rz) maxSteps i (ox, oy, oz) =
     Some \<lparr>position = (\<lfloor>ox\<rfloor>, \<lfloor>oy\<rfloor>, \<lfloor>oz\<rfloor>),
           normal = (\<lfloor>ox - rx * step\<rfloor> - \<lfloor>ox\<rfloor>, \<lfloor>oy - ry * step\<rfloor> - \<lfloor>oy\<rfloor>, \<lfloor>oz - rz * step\<rfloor> - \<lfloor>oz\<rfloor>),
           blockType = bt\<rparr>"
  using assms by (subst march.simps) (simp add: Let_def)

lemma normalize_down: "normalize (0, -1, 0) = (0, -1, 0)"
  by (simp add: normalize_def)

lemma raycast_down_from_60:
  assumes "World_getBlock w 0 60 0 = STONE" "0 < maxDistance"
  shows "World_raycast w (0.5, 60, 0.5) (0, -1, 0) maxDistance =
     Some \<lparr>position = (0, 60, 0), normal = (0, 0, 0), blockType = STONE\<rparr>"
proof -
  have m: "real 0 < maxDistance / step" using assms(2) by (simp add: step_def)
  have g: "World_getBlock w \<lfloor>0.5::real\<rfloor> \<lfloor>60::real\<rfloor> \<lfloor>0.5::real\<rfloor> = STONE"
    using assms(1) by simp
  show ?thesis
    unfolding World_raycast_def Let_def normalize_down
    by (subst march_hit_first[OF g _ m]) (simp_all add: step_def)
qed

lemma stoneColumn_nth:
  "y < WORLD_HEIGHT \<Longrightarrow> stoneColumn ! y ! 0 = (if y = 50 then AIR else STONE)"
  by (simp add: stoneColumn_def CHUNK_SIZE_def WORLD_HEIGHT_def)

lemma columnWorld_getBlock:
  assumes "0 \<le> y" "y < int WORLD_HEIGHT"
  shows "World_getBlock columnWorld 0 y 0 = (if y = 50 then AIR else STONE)"
proof -
  have c: "chunks columnWorld (chunkCoord 0, chunkCoord 0) = Some columnChunk"
    by (simp add: columnWorld_def chunkCoord_div)
  have s: "size_c columnChunk = CHUNK_SIZE" "height_c columnChunk = WORLD_HEIGHT"
    by (simp_all add: columnChunk_def airChunk_fields)
  have o: "\<not> outside columnChunk 0 y 0"
    using assms by (simp add: not_outside_iff s CHUNK_SIZE_def)
  have b: "blocks columnChunk ! 0 = stoneColumn"
    by (simp add: columnChunk_def airChunk_def Chunk_setWorld_def Chunk_new_fields CHUNK_SIZE_def)
  have n: "nat y < WORLD_HEIGHT" using assms by simp
  show ?thesis
    using o assms
    by (simp add: World_getBlock_loaded[OF assms c] adjustedLocal_mod Chunk_getBlock_def b
        stoneColumn_nth[OF n] nat_eq_iff)
qed

text \<open>
  Claim C7, as the code has it. In a world whose column at \<open>x = 0\<close>, \<open>z = 0\<close> is stone at
  every height except \<open>y = 50\<close>, which is air, the ray from \<open>(0.5, 60, 0.5)\<close> in direction
  \<open>(0, -1, 0)\<close> with any positive maximal distance starts inside the stone voxel at
  \<open>y = 60\<close>: the very first sample is the hit, at position \<open>(0, 60, 0)\<close>, of kind stone,
  and its normal is \<open>(0, 0, 0)\<close> because one step back is still inside that voxel.
\<close>

theorem flat_column_raycast:
  assumes "\<forall>y. 0 \<le> y \<and> y < int WORLD_HEIGHT \<and> y \<noteq> 50 \<longrightarrow> World_getBlock w 0 y 0 = STONE"
    and "World_getBlock w 0 50 0 = AIR"
    and "0 < maxDistance"
  shows "World_raycast w (0.5, 60, 0.5) (0, -1, 0) maxDistance =
     Some \<lparr>position = (0, 60, 0), normal = (0, 0, 0), blockType = STONE\<rparr>"
proof -
  from assms(1) have "World_getBlock w 0 60 0 = STONE" by (simp add: WORLD_HEIGHT_def)
  then show ?thesis using assms(3) by (rule raycast_down_from_60)
qed

theorem flat_column_raycast_witness:
  "World_getBlock columnWorld 0 49 0 = STONE
   \<and> World_getBlock columnWorld 0 50 0 = AIR
   \<and> World_getBlock columnWorld 0 60 0 = STONE
   \<and> World_raycast columnWorld (0.5, 60, 0.5) (0, -1, 0) 100 =
       Some \<lparr>position = (0, 60, 0), normal = (0, 0, 0), blockType = STONE\<rparr>"
proof -
  have 1: "\<forall>y. 0 \<le> y \<and> y < int WORLD_HEIGHT \<and> y \<noteq> 50 \<longrightarrow> World_getBlock columnWorld 0 y 0 = STONE"
    by (simp add: columnWorld_getBlock)
  have 2: "World_getBlock columnWorld 0 50 0 = AIR"
    by (simp add: columnWorld_getBlock WORLD_HEIGHT_def)
  have 3: "(0::real) < 100" by simp
  have 4: "World_getBlock columnWorld 0 49 0 = STONE" "World_getBlock columnWorld 0 60 0 = STONE"
    by (simp_all add: columnWorld_getBlock WORLD_HEIGHT_def)
  from flat_column_raycast[OF 1 2 3] 2 4 show ?thesis by simp
qed

text \<open>
  The result the claim states, a hit at \<open>(0, 49, 0)\<close> with normal \<open>(0, 1, 0)\<close>, is not what
  the ray cast returns on that column.
\<close>

theorem flat_column_raycast_counterexample:
  "World_getBlock columnWorld 0 50 0 = AIR \<and> World_getBlock columnWorld 0 49 0 = STONE
   \<and> World_getBlock columnWorld 0 60 0 = STONE
   \<and> World_raycast columnWorld (0.5, 60, 0.5) (0, -1, 0) 100 \<noteq>
       Some \<lparr>position = (0, 49, 0), normal = (0, 1, 0), blockType = STONE\<rparr>"
proof -
  have g: "World_getBlock columnWorld 0 60 0 = STONE"
    by (simp add: columnWorld_getBlock WORLD_HEIGHT_def)
  have "World_raycast columnWorld (0.5, 60, 0.5) (0, -1, 0) 100 =
     Some \<lparr>position = (0, 60, 0), normal = (0, 0, 0), blockType = STONE\<rparr>"
    by (rule raycast_down_from_60[OF g]) simp
  then show ?thesis by (simp add: columnWorld_getBlock WORLD_HEIGHT_def)
qed

section \<open>Face culling\<close>

lemma count_list_concat: "count_list (concat xss) a = sum_list (map (\<lambda>xs. count_list xs a) xss)"
  by (induction xss) simp_all

lemma sum_list_upt_single:
  assumes "\<And>k. k \<noteq> x \<Longrightarrow> g k = (0::nat)"
  shows "sum_list (map g [0..<n]) = (if x < n then g x else 0)"
  using assms by (induction n) (auto simp: less_Suc_eq)

lemma count_list_tagged:
  "count_list (map (\<lambda>i. (b, x, y, z, i)) xs) (t, x', y', z', i) =
     (if (t, x', y', z') = (b, x, y, z) then count_list xs i else 0)"
  by (induction xs) auto

lemma count_list_filter_upt:
  "count_list (filter P [0..<n]) i = (if i < n \<and> P i then 1 else 0)"
  by (induction n) auto

lemma voxelFaces_count:
  "count_list (voxelFaces wget c x y z) (t, x', y', z', i) =
     (if x' = x \<and> y' = y \<and> z' = z \<and> t = blocks c ! x ! y ! z \<and> t \<noteq> AIR \<and> i < 6
         \<and> (case directions ! i of (dx, dy, dz) \<Rightarrow> Chunk_isFaceVisible wget c x y z dx dy dz)
      then 1 else 0)"
  by (auto simp: voxelFaces_def Let_def count_list_tagged count_list_filter_upt directions_def)

lemma emittedFaces_count:
  "count_list (emittedFaces wget c) (t, x, y, z, i) =
     (if x < size_c c \<and> y < height_c c \<and> z < size_c c \<and> i < 6
         \<and> t = blocks c ! x ! y ! z \<and> t \<noteq> AIR
         \<and> (case directions ! i of (dx, dy, dz) \<Rightarrow> Chunk_isFaceVisible wget c x y z dx dy dz)
      then 1 else 0)"
proof -
  let ?f = "(t, x, y, z, i)"
  have zs: "count_list (concat (map (\<lambda>z'. voxelFaces wget c x' y' z') [0..<size_c c])) ?f =
      (if z < size_c c then count_list (voxelFaces wget c x' y' z) ?f else 0)" for x' y'
    unfolding count_list_concat map_map comp_def
    by (rule sum_list_upt_single) (simp add: voxelFaces_count)
  have ys: "count_list (concat (map (\<lambda>y'. concat (map (\<lambda>z'. voxelFaces wget c x' y' z') [0..<size_c c])) [0..<height_c c])) ?f =
      (if y < height_c c \<and> z < size_c c then count_list (voxelFaces wget c x' y z) ?f else 0)" for x'
    unfolding count_list_concat[of "map _ [0..<height_c c]"] map_map comp_def zs
    using sum_list_upt_single[of y "\<lambda>y'. if z < size_c c then count_list (voxelFaces wget c x' y' z) ?f else 0" "height_c c"]
    by (simp add: voxelFaces_count)
  have xs: "count_list (emittedFaces wget c) ?f =
      (if x < size_c c \<and> y < height_c c \<and> z < size_c c then count_list (voxelFaces wget c x y z) ?f else 0)"
    unfolding emittedFaces_def count_list_concat[of "map _ [0..<size_c c]"] map_map comp_def ys
    using sum_list_upt_single[of x "\<lambda>x'. if y < height_c c \<and> z < size_c c then count_list (voxelFaces wget c x' y z) ?f else 0" "size_c c"]
    by (simp add: voxelFaces_count)
  show ?thesis unfolding xs by (auto simp: voxelFaces_count)
qed

lemma emittedFaces_mem:
  "(t, x, y, z, i) \<in> set (emittedFaces wget c) \<longleftrightarrow>
     x < size_c c \<and> y < height_c c \<and> z < size_c c \<and> i < 6
       \<and> t = blocks c ! x ! y ! z \<and> t \<noteq> AIR
       \<and> (case directions ! i of (dx, dy, dz) \<Rightarrow> Chunk_isFaceVisible wget c x y z dx dy dz)"
  using emittedFaces_count[of wget c t x y z i] count_list_0_iff[of "emittedFaces wget c" "(t, x, y, z, i)"]
  by (auto split: if_splits)













section \<open>Terrain generation\<close>

subsection \<open>Looking up the noise tables\<close>

lemma doubled_nth: "n < 512 \<Longrightarrow> (map f [0..<256] @ map f [0..<256]) ! n = f (n mod 256)"
  by (cases "n < 256") (auto simp: nth_append mod_if)

lemma perm_nth:
  assumes "0 \<le> i" "i < 512"
  shows "perm (SimplexNoise_new s) ! nat i = permAt (seedInt s) i"
proof -
  from assms have "nat i < 512" by simp
  then show ?thesis
    by (simp add: SimplexNoise_new_def Let_def permAt_def doubled_nth)
qed

lemma gradP_nth:
  assumes "0 \<le> i" "i < 512"
  shows "gradP (SimplexNoise_new s) ! nat i = gradAt (seedInt s) i"
proof -
  from assms have "nat i < 512" by simp
  then show ?thesis
    by (simp add: SimplexNoise_new_def Let_def permAt_def gradAt_def doubled_nth)
qed

lemma and_255_range: "0 \<le> (k::int) AND 255" "k AND 255 < 256"
proof -
  show "0 \<le> k AND 255" by simp
  have "k AND 255 \<le> 255" by (rule AND_upper2) simp
  then show "k AND 255 < 256" by simp
qed

lemma and_511_range: "0 \<le> (k::int) AND 511" "k AND 511 < 512"
proof -
  show "0 \<le> k AND 511" by simp
  have "k AND 511 \<le> 511" by (rule AND_upper2) simp
  then show "k AND 511 < 512" by simp
qed

lemma noise_noiseAt: "noise (SimplexNoise_new s) x y = noiseAt (seedInt s) x y"
proof -
  have Y: "0 \<le> \<lfloor>y\<rfloor> AND 255" "\<lfloor>y\<rfloor> AND 255 < 512" "0 \<le> (\<lfloor>y\<rfloor> AND 255) + 1" "(\<lfloor>y\<rfloor> AND 255) + 1 < 512"
    using and_255_range[of "\<lfloor>y\<rfloor>"] by simp_all
  show ?thesis
    unfolding noise_def noiseAt_def Let_def
    by (simp only: perm_nth[OF Y(1,2)] perm_nth[OF Y(3,4)] gradP_nth[OF and_511_range])
qed

subsection \<open>Filling columns\<close>

lemma fold_set3_column:
  assumes "wf_blocks sz h b" "n \<le> h"
  shows "wf_blocks sz h (fold (\<lambda>y b. set3 b x y z (f y)) [0..<n] b)
       \<and> (\<forall>x' y' z'. x' < sz \<and> y' < h \<and> z' < sz \<longrightarrow>
            fold (\<lambda>y b. set3 b x y z (f y)) [0..<n] b ! x' ! y' ! z' =
              (if x' = x \<and> z' = z \<and> y' < n then f y' else b ! x' ! y' ! z'))"
  using assms(2)
proof (induction n)
  case 0
  show ?case using assms(1) by simp
next
  case (Suc n)
  let ?b = "fold (\<lambda>y b. set3 b x y z (f y)) [0..<n] b"
  from Suc have wf: "wf_blocks sz h ?b"
    and nth: "\<And>x' y' z'. x' < sz \<Longrightarrow> y' < h \<Longrightarrow> z' < sz \<Longrightarrow>
            ?b ! x' ! y' ! z' = (if x' = x \<and> z' = z \<and> y' < n then f y' else b ! x' ! y' ! z')"
    by simp_all
  have step: "fold (\<lambda>y b. set3 b x y z (f y)) [0..<Suc n] b = set3 ?b x n z (f n)"
    by simp
  show ?case
    unfolding step
  proof (intro conjI allI impI)
    show "wf_blocks sz h (set3 ?b x n z (f n))" by (rule wf_blocks_set3[OF wf])
    fix x' y' z' assume r: "x' < sz \<and> y' < h \<and> z' < sz"
    then show "set3 ?b x n z (f n) ! x' ! y' ! z' =
        (if x' = x \<and> z' = z \<and> y' < Suc n then f y' else b ! x' ! y' ! z')"
      using set3_nth[OF wf, of x' y' z' x n z "f n"] nth[of x' y' z']
      by (auto simp: less_Suc_eq)
  qed
qed

lemma fillColumn_fields [simp]:
  "size_c (fillColumn h x z c) = size_c c"
  "height_c (fillColumn h x z c) = height_c c"
  "simplex (fillColumn h x z c) = simplex c"
  "chunkX (fillColumn h x z c) = chunkX c"
  "chunkZ (fillColumn h x z c) = chunkZ c"
  by (simp_all add: fillColumn_def)

lemma wf_chunk_fillColumn: "wf_chunk c \<Longrightarrow> wf_chunk (fillColumn h x z c)"
  using fold_set3_column[of "size_c c" "height_c c" "blocks c" "height_c c" x z "columnBlock h"]
  by (simp add: wf_chunk_def fillColumn_def)

lemma fillColumn_nth:
  assumes "wf_chunk c" "x' < size_c c" "y' < height_c c" "z' < size_c c"
  shows "blocks (fillColumn h x z c) ! x' ! y' ! z' =
     (if x' = x \<and> z' = z then columnBlock h y' else blocks c ! x' ! y' ! z')"
  using fold_set3_column[of "size_c c" "height_c c" "blocks c" "height_c c" x z "columnBlock h"] assms
  by (simp add: wf_chunk_def fillColumn_def)

lemma columnHeight_sameShape: "sameShape c c' \<Longrightarrow> columnHeight c' x z = columnHeight c x z"
  by (simp add: sameShape_def columnHeight_def Chunk_getTerrainHeight_def)

lemma surfaceKind_sameShape: "sameShape c c' \<Longrightarrow> surfaceKind c' x z = surfaceKind c x z"
  by (simp add: surfaceKind_def columnHeight_sameShape)

lemma sameShape_refl [simp]: "sameShape c c"
  by (simp add: sameShape_def)

lemma sameShape_terrainColumn [simp]: "sameShape c (terrainColumn xz c)"
  by (simp add: sameShape_def terrainColumn_def)

lemma sameShape_trans: "sameShape a b \<Longrightarrow> sameShape b c \<Longrightarrow> sameShape a c"
  by (simp add: sameShape_def)

lemma columnHeight_range:
  assumes "0 < height_c c"
  shows "1 \<le> columnHeight c x z" and "nat \<lfloor>columnHeight c x z - 1\<rfloor> < height_c c"
proof -
  let ?h = "columnHeight c x z"
  show 1: "1 \<le> ?h" by (simp add: columnHeight_def Chunk_getTerrainHeight_def Let_def)
  have "?h \<le> max 1 (real (height_c c) - 1)"
    by (simp add: columnHeight_def Chunk_getTerrainHeight_def Let_def)
  with assms have "?h - 1 < real (height_c c)" by (auto simp: max_def split: if_splits)
  moreover have "real_of_int \<lfloor>?h - 1\<rfloor> \<le> ?h - 1" by (rule of_int_floor_le)
  ultimately have "real_of_int \<lfloor>?h - 1\<rfloor> < real (height_c c)" by linarith
  then have "real_of_int \<lfloor>?h - 1\<rfloor> < real_of_int (int (height_c c))" by (simp only: of_int_of_nat_eq)
  then have "\<lfloor>?h - 1\<rfloor> < int (height_c c)" by (simp only: of_int_less_iff)
  with assms show "nat \<lfloor>?h - 1\<rfloor> < height_c c" by linarith
qed

lemma generateColumn_surface:
  assumes "wf_chunk c" "x < size_c c" "z < size_c c" "0 < height_c c"
  shows "blocks (terrainColumn (x, z) c) ! x ! nat \<lfloor>columnHeight c x z - 1\<rfloor> ! z = surfaceKind c x z"
  using fillColumn_nth[OF assms(1,2) columnHeight_range(2)[OF assms(4)] assms(3)]
  by (simp add: terrainColumn_def surfaceKind_def)

lemma generateColumn_unfold:
  "generateColumn x z (c, r) =
     (let terrainHeight = columnHeight c x z; c1 = terrainColumn (x, z) c
      in if blocks c1 ! x ! nat \<lfloor>terrainHeight - 1\<rfloor> ! z = GRASS then
           (let (rnd, r1) = Math_random r
            in if rnd < 0.02 then Chunk_generateTree r1 c1 x \<lfloor>terrainHeight\<rfloor> z else (c1, r1))
         else (c1, r))"
  by (simp add: generateColumn_def columnHeight_def terrainColumn_def Let_def)

lemma generateColumn_noGrass:
  assumes "wf_chunk c" "x < size_c c" "z < size_c c" "0 < height_c c" "surfaceKind c x z \<noteq> GRASS"
  shows "generateColumn x z (c, r) = (terrainColumn (x, z) c, r)"
  unfolding generateColumn_unfold Let_def
  by (simp only: generateColumn_surface[OF assms(1-4)] assms(5) if_False)

lemma generateColumn_noTree:
  assumes "noTreeDraws r"
  shows "\<exists>r'. generateColumn x z (c, r) = (terrainColumn (x, z) c, r') \<and> noTreeDraws r'"
proof -
  from assms have d: "\<not> draws r (drawn r) < 0.02" by (simp add: noTreeDraws_def)
  from assms have n: "noTreeDraws (r\<lparr>drawn := Suc (drawn r)\<rparr>)" by (simp add: noTreeDraws_def)
  show ?thesis
    using d n assms by (auto simp: generateColumn_unfold Let_def Math_random_def)
qed

lemma wf_chunk_terrainColumn: "wf_chunk c \<Longrightarrow> wf_chunk (terrainColumn xz c)"
  by (simp add: terrainColumn_def wf_chunk_fillColumn)

lemma terrainColumn_fields [simp]:
  "size_c (terrainColumn xz c) = size_c c" "height_c (terrainColumn xz c) = height_c c"
  by (simp_all add: terrainColumn_def)

lemma terrainColumn_nth:
  assumes "wf_chunk c" "x < size_c c" "y < height_c c" "z < size_c c"
  shows "blocks (terrainColumn a c) ! x ! y ! z =
     (if x = fst a \<and> z = snd a then columnBlock (columnHeight c (fst a) (snd a)) y else blocks c ! x ! y ! z)"
  by (simp add: terrainColumn_def fillColumn_nth[OF assms])

lemma fold_terrainColumn_shape:
  "sameShape c (fold terrainColumn cols c) \<and> (wf_chunk c \<longrightarrow> wf_chunk (fold terrainColumn cols c))"
proof (induction cols arbitrary: c)
  case Nil
  show ?case by simp
next
  case (Cons a cols)
  from Cons[of "terrainColumn a c"] show ?case
    using sameShape_trans[OF sameShape_terrainColumn[of c a]] by (auto simp: wf_chunk_terrainColumn)
qed

lemma fold_terrainColumn_nth:
  assumes "wf_chunk c" "x < size_c c" "y < height_c c" "z < size_c c"
  shows "blocks (fold terrainColumn cols c) ! x ! y ! z =
     (if (x, z) \<in> set cols then columnBlock (columnHeight c x z) y else blocks c ! x ! y ! z)"
  using assms
proof (induction cols arbitrary: c rule: rev_induct)
  case Nil
  show ?case by simp
next
  case (snoc a cols)
  let ?c = "fold terrainColumn cols c"
  have sh: "sameShape c ?c" and wf: "wf_chunk ?c"
    using fold_terrainColumn_shape[of c cols] snoc.prems(1) by simp_all
  have r: "x < size_c ?c" "y < height_c ?c" "z < size_c ?c"
    using sh snoc.prems by (simp_all add: sameShape_def)
  have "blocks (terrainColumn a ?c) ! x ! y ! z =
      (if x = fst a \<and> z = snd a then columnBlock (columnHeight ?c (fst a) (snd a)) y else blocks ?c ! x ! y ! z)"
    by (rule terrainColumn_nth[OF wf r])
  then show ?case
    using snoc.IH[OF snoc.prems] columnHeight_sameShape[OF sh]
    by (cases a) auto
qed

lemma fold_generateColumn_noGrass:
  assumes "wf_chunk c" "0 < height_c c"
    and "\<forall>xz \<in> set cols. fst xz < size_c c \<and> snd xz < size_c c \<and> surfaceKind c (fst xz) (snd xz) \<noteq> GRASS"
  shows "fold (\<lambda>xz. generateColumn (fst xz) (snd xz)) cols (c, r) = (fold terrainColumn cols c, r)"
  using assms
proof (induction cols arbitrary: c)
  case Nil
  show ?case by simp
next
  case (Cons a cols)
  let ?c = "terrainColumn a c"
  have a: "generateColumn (fst a) (snd a) (c, r) = (?c, r)"
    using generateColumn_noGrass[OF Cons.prems(1) _ _ Cons.prems(2), of "fst a" "snd a" r] Cons.prems(3)
    by simp
  have "\<forall>xz \<in> set cols. fst xz < size_c ?c \<and> snd xz < size_c ?c \<and> surfaceKind ?c (fst xz) (snd xz) \<noteq> GRASS"
    using Cons.prems(3) surfaceKind_sameShape[OF sameShape_terrainColumn[of c a]] by simp
  from Cons.IH[OF wf_chunk_terrainColumn[OF Cons.prems(1)] _ this] Cons.prems(2) a
  show ?case by simp
qed

lemma fold_generateColumn_noTree:
  assumes "noTreeDraws r"
  shows "\<exists>r'. fold (\<lambda>xz. generateColumn (fst xz) (snd xz)) cols (c, r) = (fold terrainColumn cols c, r')
           \<and> noTreeDraws r'"
  using assms
proof (induction cols arbitrary: c r)
  case Nil
  then show ?case by simp
next
  case (Cons a cols)
  from generateColumn_noTree[OF Cons.prems, of "fst a" "snd a" c] obtain r1 where
    a: "generateColumn (fst a) (snd a) (c, r) = (terrainColumn a c, r1)" and n: "noTreeDraws r1"
    by auto
  from Cons.IH[OF n, of "terrainColumn a c"] a show ?case by simp
qed

lemma fold_nested:
  "fold (\<lambda>x. fold (g x) zs) xs s = fold (\<lambda>xz. g (fst xz) (snd xz)) (concat (map (\<lambda>x. map (Pair x) zs) xs)) s"
  by (induction xs arbitrary: s) (simp_all add: fold_map comp_def)

lemma Chunk_generate_columns:
  assumes "0 < height_c c"
  shows "Chunk_generate view r c =
     (let cr = fold (\<lambda>xz. generateColumn (fst xz) (snd xz)) (allColumns (size_c c)) (c, r)
      in Inr (Chunk_updateMesh (view (fst cr)) (fst cr), snd cr))"
  using assms by (simp add: Chunk_generate_def allColumns_def fold_nested split_def Let_def)

lemma set_allColumns: "set (allColumns sz) = {xz. fst xz < sz \<and> snd xz < sz}"
  by (force simp: allColumns_def)

subsection \<open>Dependence on the random source\<close>

lemma columnHeight_new:
  "columnHeight (fst (Chunk_new r cx cz sz h)) x z =
     heightAt (seedInt (draws r (drawn r))) h (cx * int sz + int x) (cz * int sz + int z)"
  by (simp add: columnHeight_def Chunk_getTerrainHeight_def Chunk_new_fields noise_noiseAt heightAt_def Let_def)

lemma Math_random_sameDraws:
  assumes "sameDraws r1 r2"
  shows "fst (Math_random r1) = fst (Math_random r2)"
    and "sameDraws (snd (Math_random r1)) (snd (Math_random r2))"
  using assms[unfolded sameDraws_def, rule_format, of 0] assms[unfolded sameDraws_def, rule_format, of "Suc _"]
  by (simp_all add: Math_random_def sameDraws_def)

lemma Chunk_generateTree_sameDraws:
  assumes "sameDraws r1 r2"
  shows "fst (Chunk_generateTree r1 c x y z) = fst (Chunk_generateTree r2 c x y z)
       \<and> sameDraws (snd (Chunk_generateTree r1 c x y z)) (snd (Chunk_generateTree r2 c x y z))"
  using Math_random_sameDraws[OF assms] assms
  by (simp add: Chunk_generateTree_def split_def Let_def)

lemma generateColumn_sameDraws:
  assumes "sameDraws r1 r2"
  shows "fst (generateColumn x z (c, r1)) = fst (generateColumn x z (c, r2))
       \<and> sameDraws (snd (generateColumn x z (c, r1))) (snd (generateColumn x z (c, r2)))"
  using Math_random_sameDraws[OF assms] assms
    Chunk_generateTree_sameDraws[OF Math_random_sameDraws(2)[OF assms]]
  by (simp add: generateColumn_unfold split_def Let_def)

lemma fold_generateColumn_sameDraws:
  assumes "sameDraws r1 r2"
  shows "fst (fold (\<lambda>xz. generateColumn (fst xz) (snd xz)) cols (c, r1))
           = fst (fold (\<lambda>xz. generateColumn (fst xz) (snd xz)) cols (c, r2))
       \<and> sameDraws (snd (fold (\<lambda>xz. generateColumn (fst xz) (snd xz)) cols (c, r1)))
                   (snd (fold (\<lambda>xz. generateColumn (fst xz) (snd xz)) cols (c, r2)))"
  using assms
proof (induction cols arbitrary: c r1 r2)
  case Nil
  then show ?case by simp
next
  case (Cons a cols)
  let ?g = "\<lambda>xz. generateColumn (fst xz) (snd xz)"
  let ?s1 = "generateColumn (fst a) (snd a) (c, r1)" and ?s2 = "generateColumn (fst a) (snd a) (c, r2)"
  from generateColumn_sameDraws[OF Cons.prems, of "fst a" "snd a" c]
  have f: "fst ?s2 = fst ?s1" and s: "sameDraws (snd ?s1) (snd ?s2)" by simp_all
  have 1: "fold ?g (a # cols) (c, r1) = fold ?g cols (fst ?s1, snd ?s1)" by simp
  have 2: "fold ?g (a # cols) (c, r2) = fold ?g cols (fst ?s1, snd ?s2)"
    by (simp add: f[symmetric])
  show ?case unfolding 1 2 by (rule Cons.IH[OF s])
qed


lemma Chunk_generate_columns_gen:
  assumes "height_c c = 0 \<longrightarrow> size_c c = 0"
  shows "Chunk_generate view r c =
     (let cr = fold (\<lambda>xz. generateColumn (fst xz) (snd xz)) (allColumns (size_c c)) (c, r)
      in Inr (Chunk_updateMesh (view (fst cr)) (fst cr), snd cr))"
  using assms by (auto simp add: Chunk_generate_def allColumns_def fold_nested split_def Let_def)

lemma generatedBlocks_columns:
  "generatedBlocks view r cx cz sz h =
     (if h = 0 \<and> sz > 0 then None
      else Some (blocks (fst (fold (\<lambda>xz. generateColumn (fst xz) (snd xz)) (allColumns sz)
                  (fst (Chunk_new r cx cz sz h), snd (Chunk_new r cx cz sz h))))))"
proof (cases "h = 0 \<and> sz > 0")
  case True
  then show ?thesis
    by (simp add: generatedBlocks_def freshGenerate_def split_def Chunk_generate_def Chunk_new_fields)
next
  case False
  then have "height_c (fst (Chunk_new r cx cz sz h)) = 0 \<longrightarrow> size_c (fst (Chunk_new r cx cz sz h)) = 0"
    by (auto simp: Chunk_new_fields)
  from Chunk_generate_columns_gen[OF this] False show ?thesis
    by (simp add: generatedBlocks_def freshGenerate_def split_def Chunk_new_fields Let_def)
qed

lemma Chunk_new_same_seed:
  "draws r1 (drawn r1) = draws r2 (drawn r2) \<Longrightarrow> fst (Chunk_new r1 cx cz sz h) = fst (Chunk_new r2 cx cz sz h)"
  by (simp add: Chunk_new_def Math_random_def)

lemma Chunk_new_sameDraws:
  assumes "sameDraws r1 r2"
  shows "fst (Chunk_new r1 cx cz sz h) = fst (Chunk_new r2 cx cz sz h)"
    and "sameDraws (snd (Chunk_new r1 cx cz sz h)) (snd (Chunk_new r2 cx cz sz h))"
  using Math_random_sameDraws[OF assms]
  by (simp_all add: Chunk_new_def split_def Let_def)

lemma generatedBlocks_sameDraws:
  assumes "sameDraws r1 r2"
  shows "generatedBlocks view1 r1 cx cz sz h = generatedBlocks view2 r2 cx cz sz h"
proof -
  have e: "fst (Chunk_new r1 cx cz sz h) = fst (Chunk_new r2 cx cz sz h)"
    by (rule Chunk_new_sameDraws(1)[OF assms])
  have s: "sameDraws (snd (Chunk_new r1 cx cz sz h)) (snd (Chunk_new r2 cx cz sz h))"
    by (rule Chunk_new_sameDraws(2)[OF assms])
  have f: "fst (fold (\<lambda>xz. generateColumn (fst xz) (snd xz)) (allColumns sz)
                 (fst (Chunk_new r2 cx cz sz h), snd (Chunk_new r1 cx cz sz h)))
         = fst (fold (\<lambda>xz. generateColumn (fst xz) (snd xz)) (allColumns sz)
                 (fst (Chunk_new r2 cx cz sz h), snd (Chunk_new r2 cx cz sz h)))"
    using fold_generateColumn_sameDraws[OF s, of "allColumns sz" "fst (Chunk_new r2 cx cz sz h)"]
    by (rule conjunct1)
  show ?thesis by (simp only: generatedBlocks_columns e f)
qed

lemma noGrass_iff:
  "noGrass c \<longleftrightarrow> (\<forall>x<size_c c. \<forall>z<size_c c. surfaceKind c x z \<noteq> GRASS)"
  by (auto simp: noGrass_def list_all_iff set_allColumns)

lemma generatedBlocks_noGrass:
  assumes "0 < h" "noGrass (fst (Chunk_new r cx cz sz h))"
  shows "generatedBlocks view r cx cz sz h =
     Some (blocks (fold terrainColumn (allColumns sz) (fst (Chunk_new r cx cz sz h))))"
proof -
  let ?c = "fst (Chunk_new r cx cz sz h)"
  have "\<forall>xz \<in> set (allColumns sz). fst xz < size_c ?c \<and> snd xz < size_c ?c
          \<and> surfaceKind ?c (fst xz) (snd xz) \<noteq> GRASS"
    using assms(2) by (simp add: noGrass_iff set_allColumns Chunk_new_fields)
  from fold_generateColumn_noGrass[OF wf_chunk_new _ this, of "snd (Chunk_new r cx cz sz h)"] assms(1)
  show ?thesis by (simp add: generatedBlocks_columns Chunk_new_fields)
qed

lemma columnBlock_low: "h < 12 \<Longrightarrow> columnBlock h y \<noteq> GRASS"
  by (simp add: columnBlock_def)

lemma noGrass_low:
  assumes "height_c c \<le> 12"
  shows "noGrass c"
proof -
  have "columnHeight c x z < 12" for x z
  proof -
    have "columnHeight c x z \<le> max 1 (real (height_c c) - 1)"
      by (simp add: columnHeight_def Chunk_getTerrainHeight_def Let_def)
    also have "\<dots> \<le> 11" using assms by simp
    finally show ?thesis by simp
  qed
  then show ?thesis by (simp add: noGrass_iff surfaceKind_def columnBlock_low)
qed

text \<open>
  Claim C1, as the code has it. The voxel array of a freshly constructed and generated
  chunk is determined by the noise seed, the chunk coordinates and size, and the results
  of the \<open>Math.random()\<close> calls made during generation: two runs whose calls return the
  same sequence produce identical arrays. The calls after the seed are the tree test and
  the trunk height on columns whose surface voxel is grass; when no column of the chunk
  has a grass surface, two runs with the same seed produce identical arrays whatever the
  later random results are.
\<close>

theorem generation_determined_by_draws:
  "(sameDraws r1 r2 \<longrightarrow>
      generatedBlocks view1 r1 cx cz sz h = generatedBlocks view2 r2 cx cz sz h)
   \<and> (draws r1 (drawn r1) = draws r2 (drawn r2) \<and> 0 < h \<and> noGrass (fst (Chunk_new r1 cx cz sz h)) \<longrightarrow>
      generatedBlocks view1 r1 cx cz sz h = generatedBlocks view2 r2 cx cz sz h
      \<and> generatedBlocks view1 r1 cx cz sz h \<noteq> None)"
proof (intro conjI impI)
  assume "sameDraws r1 r2"
  then show "generatedBlocks view1 r1 cx cz sz h = generatedBlocks view2 r2 cx cz sz h"
    by (rule generatedBlocks_sameDraws)
next
  assume a: "draws r1 (drawn r1) = draws r2 (drawn r2) \<and> 0 < h \<and> noGrass (fst (Chunk_new r1 cx cz sz h))"
  then have e: "fst (Chunk_new r1 cx cz sz h) = fst (Chunk_new r2 cx cz sz h)"
    by (intro Chunk_new_same_seed) simp
  with a have n2: "noGrass (fst (Chunk_new r2 cx cz sz h))" by simp
  from a have h: "0 < h" and n1: "noGrass (fst (Chunk_new r1 cx cz sz h))" by simp_all
  show "generatedBlocks view1 r1 cx cz sz h = generatedBlocks view2 r2 cx cz sz h"
    by (simp add: generatedBlocks_noGrass[OF h n1] generatedBlocks_noGrass[OF h n2] e)
  show "generatedBlocks view1 r1 cx cz sz h \<noteq> None"
    by (simp add: generatedBlocks_noGrass[OF h n1])
qed

theorem generation_determined_by_draws_witness:
  "sameDraws (constantDraws (1/100)) ((constantDraws (1/100))\<lparr>drawn := 7\<rparr>)
   \<and> generatedBlocks (worldView emptyWorld (3, 3)) (constantDraws (1/100)) 3 3 16 128
       = generatedBlocks (worldView emptyWorld (3, 3)) ((constantDraws (1/100))\<lparr>drawn := 7\<rparr>) 3 3 16 128
   \<and> draws (seededDraws (3/16384) 0) (drawn (seededDraws (3/16384) 0))
       = draws (seededDraws (3/16384) (1/2)) (drawn (seededDraws (3/16384) (1/2)))
   \<and> noGrass (fst (Chunk_new (seededDraws (3/16384) 0) 3 3 16 12))
   \<and> generatedBlocks (worldView emptyWorld (3, 3)) (seededDraws (3/16384) 0) 3 3 16 12
       = generatedBlocks (worldView emptyWorld (3, 3)) (seededDraws (3/16384) (1/2)) 3 3 16 12
   \<and> generatedBlocks (worldView emptyWorld (3, 3)) (seededDraws (3/16384) 0) 3 3 16 12 \<noteq> None"
proof -
  have s: "sameDraws (constantDraws (1/100)) ((constantDraws (1/100))\<lparr>drawn := 7\<rparr>)"
    by (simp add: sameDraws_def constantDraws_def)
  have d: "draws (seededDraws (3/16384) 0) (drawn (seededDraws (3/16384) 0))
       = draws (seededDraws (3/16384) (1/2)) (drawn (seededDraws (3/16384) (1/2)))"
    by (simp add: seededDraws_def)
  have n: "noGrass (fst (Chunk_new (seededDraws (3/16384) 0) 3 3 16 12))"
    by (rule noGrass_low) (simp add: Chunk_new_fields)
  have h: "(0::nat) < 12" by simp
  note t1 = generation_determined_by_draws[of "constantDraws (1/100)" "(constantDraws (1/100))\<lparr>drawn := 7\<rparr>"
      "worldView emptyWorld (3, 3)" 3 3 16 128 "worldView emptyWorld (3, 3)", THEN conjunct1, rule_format, OF s]
  note t2 = generation_determined_by_draws[of "seededDraws (3/16384) 0" "seededDraws (3/16384) (1/2)"
      "worldView emptyWorld (3, 3)" 3 3 16 12 "worldView emptyWorld (3, 3)", THEN conjunct2, rule_format,
      OF conjI[OF d conjI[OF h n]]]
  show ?thesis
    by (rule conjI[OF s conjI[OF t1 conjI[OF d conjI[OF n t2]]]])
qed

subsection \<open>Trees\<close>

lemma set3_writes:
  assumes "wf_blocks sz h b" "x' < sz" "y' < h" "z' < sz"
  shows "set3 b x y z t ! x' ! y' ! z' \<in> {b ! x' ! y' ! z', t}"
  using set3_nth[OF assms, of x y z t] by simp

lemma fold_writes:
  assumes "\<And>a b. wf_blocks sz h b \<Longrightarrow>
             wf_blocks sz h (f a b)
             \<and> (\<forall>x y z. x < sz \<and> y < h \<and> z < sz \<longrightarrow> f a b ! x ! y ! z \<in> {b ! x ! y ! z, WOOD, LEAVES})"
    and "wf_blocks sz h b"
  shows "wf_blocks sz h (fold f as b)
       \<and> (\<forall>x y z. x < sz \<and> y < h \<and> z < sz \<longrightarrow> fold f as b ! x ! y ! z \<in> {b ! x ! y ! z, WOOD, LEAVES})"
  using assms(2)
proof (induction as arbitrary: b)
  case Nil
  then show ?case by simp
next
  case (Cons a as)
  from assms(1)[OF Cons.prems, of a] have wf: "wf_blocks sz h (f a b)"
    and w: "\<And>x y z. x < sz \<Longrightarrow> y < h \<Longrightarrow> z < sz \<Longrightarrow> f a b ! x ! y ! z \<in> {b ! x ! y ! z, WOOD, LEAVES}"
    by simp_all
  from Cons.IH[OF wf] have wf': "wf_blocks sz h (fold f as (f a b))"
    and w': "\<And>x y z. x < sz \<Longrightarrow> y < h \<Longrightarrow> z < sz \<Longrightarrow>
               fold f as (f a b) ! x ! y ! z \<in> {f a b ! x ! y ! z, WOOD, LEAVES}"
    by simp_all
  show ?case
  proof (intro conjI allI impI)
    show "wf_blocks sz h (fold f (a # as) b)" using wf' by simp
    fix x y z assume r: "x < sz \<and> y < h \<and> z < sz"
    with w[of x y z] w'[of x y z]
    show "fold f (a # as) b ! x ! y ! z \<in> {b ! x ! y ! z, WOOD, LEAVES}" by auto
  qed
qed

lemma set3_step_writes:
  assumes "wf_blocks sz h b" "t = WOOD \<or> t = LEAVES"
  shows "wf_blocks sz h (set3 b x y z t)
       \<and> (\<forall>x' y' z'. x' < sz \<and> y' < h \<and> z' < sz \<longrightarrow>
            set3 b x y z t ! x' ! y' ! z' \<in> {b ! x' ! y' ! z', WOOD, LEAVES})"
  using wf_blocks_set3[OF assms(1)] assms(2) by (auto simp: set3_nth[OF assms(1)])

lemma placeLeaf_writes:
  assumes "wf_blocks sz h b"
  shows "wf_blocks sz h (placeLeaf c x y z th l b)
       \<and> (\<forall>x' y' z'. x' < sz \<and> y' < h \<and> z' < sz \<longrightarrow>
            placeLeaf c x y z th l b ! x' ! y' ! z' \<in> {b ! x' ! y' ! z', WOOD, LEAVES})"
proof -
  obtain lX lY lZ where l: "l = (lX, lY, lZ)" by (cases l)
  let ?s = "set3 b (nat (int x + lX)) (nat (y + th + lY)) (nat (int z + lZ)) LEAVES"
  have "placeLeaf c x y z th l b = b \<or> placeLeaf c x y z th l b = ?s"
    by (simp add: placeLeaf_def l Let_def)
  then show ?thesis
  proof
    assume "placeLeaf c x y z th l b = b"
    with assms show ?thesis by simp
  next
    assume e: "placeLeaf c x y z th l b = ?s"
    show ?thesis unfolding e by (rule set3_step_writes[OF assms]) simp
  qed
qed

lemma Chunk_generateTree_fields [simp]:
  "size_c (fst (Chunk_generateTree r c x y z)) = size_c c"
  "height_c (fst (Chunk_generateTree r c x y z)) = height_c c"
  "simplex (fst (Chunk_generateTree r c x y z)) = simplex c"
  "chunkX (fst (Chunk_generateTree r c x y z)) = chunkX c"
  "chunkZ (fst (Chunk_generateTree r c x y z)) = chunkZ c"
  by (simp_all add: Chunk_generateTree_def split_def Let_def)

lemma Chunk_generateTree_blocks:
  "blocks (fst (Chunk_generateTree r c x y z)) = blocks c
   \<or> blocks (fst (Chunk_generateTree r c x y z)) =
        fold (placeLeaf c x y z (4 + \<lfloor>draws r (drawn r) * 3\<rfloor>)) leafOffsets
          (fold (\<lambda>tY b. set3 b x (nat (y + tY)) z WOOD) [0..4 + \<lfloor>draws r (drawn r) * 3\<rfloor> - 1] (blocks c))"
  by (simp add: Chunk_generateTree_def split_def Let_def Math_random_def)

lemma Chunk_generateTree_writes:
  assumes "wf_chunk c"
  shows "wf_chunk (fst (Chunk_generateTree r c x y z))
       \<and> (\<forall>x' y' z'. x' < size_c c \<and> y' < height_c c \<and> z' < size_c c \<longrightarrow>
            blocks (fst (Chunk_generateTree r c x y z)) ! x' ! y' ! z' \<in> {blocks c ! x' ! y' ! z', WOOD, LEAVES})"
proof -
  let ?th = "4 + \<lfloor>draws r (drawn r) * 3\<rfloor>"
  let ?b1 = "fold (\<lambda>tY b. set3 b x (nat (y + tY)) z WOOD) [0..?th - 1] (blocks c)"
  let ?b2 = "fold (placeLeaf c x y z ?th) leafOffsets ?b1"
  from assms have wf: "wf_blocks (size_c c) (height_c c) (blocks c)" by (simp add: wf_chunk_def)
  have 1: "wf_blocks (size_c c) (height_c c) ?b1
       \<and> (\<forall>x' y' z'. x' < size_c c \<and> y' < height_c c \<and> z' < size_c c \<longrightarrow>
            ?b1 ! x' ! y' ! z' \<in> {blocks c ! x' ! y' ! z', WOOD, LEAVES})"
  proof (rule fold_writes[OF _ wf])
    fix a b assume "wf_blocks (size_c c) (height_c c) b"
    then show "wf_blocks (size_c c) (height_c c) (set3 b x (nat (y + a)) z WOOD)
       \<and> (\<forall>x' y' z'. x' < size_c c \<and> y' < height_c c \<and> z' < size_c c \<longrightarrow>
            set3 b x (nat (y + a)) z WOOD ! x' ! y' ! z' \<in> {b ! x' ! y' ! z', WOOD, LEAVES})"
      by (rule set3_step_writes) simp
  qed
  then have wf1: "wf_blocks (size_c c) (height_c c) ?b1" by simp
  have 2: "wf_blocks (size_c c) (height_c c) ?b2
       \<and> (\<forall>x' y' z'. x' < size_c c \<and> y' < height_c c \<and> z' < size_c c \<longrightarrow>
            ?b2 ! x' ! y' ! z' \<in> {?b1 ! x' ! y' ! z', WOOD, LEAVES})"
  proof (rule fold_writes[OF _ wf1])
    fix a b assume "wf_blocks (size_c c) (height_c c) b"
    then show "wf_blocks (size_c c) (height_c c) (placeLeaf c x y z ?th a b)
       \<and> (\<forall>x' y' z'. x' < size_c c \<and> y' < height_c c \<and> z' < size_c c \<longrightarrow>
            placeLeaf c x y z ?th a b ! x' ! y' ! z' \<in> {b ! x' ! y' ! z', WOOD, LEAVES})"
      by (rule placeLeaf_writes)
  qed
  have 3: "wf_blocks (size_c c) (height_c c) ?b2
       \<and> (\<forall>x' y' z'. x' < size_c c \<and> y' < height_c c \<and> z' < size_c c \<longrightarrow>
            ?b2 ! x' ! y' ! z' \<in> {blocks c ! x' ! y' ! z', WOOD, LEAVES})"
  proof (intro conjI allI impI)
    show "wf_blocks (size_c c) (height_c c) ?b2" using 2 by (rule conjunct1)
    fix x' y' z' assume r: "x' < size_c c \<and> y' < height_c c \<and> z' < size_c c"
    from 1 r have a: "?b1 ! x' ! y' ! z' \<in> {blocks c ! x' ! y' ! z', WOOD, LEAVES}"
      by (elim conjE allE[of _ x'] allE[of _ y'] allE[of _ z'] impE) (intro conjI, assumption+)
    from 2 r have b: "?b2 ! x' ! y' ! z' \<in> {?b1 ! x' ! y' ! z', WOOD, LEAVES}"
      by (elim conjE allE[of _ x'] allE[of _ y'] allE[of _ z'] impE) (intro conjI, assumption+)
    from a b show "?b2 ! x' ! y' ! z' \<in> {blocks c ! x' ! y' ! z', WOOD, LEAVES}"
      by (elim insertE emptyE) simp_all
  qed
  from Chunk_generateTree_blocks[of r c x y z] show ?thesis
  proof
    assume "blocks (fst (Chunk_generateTree r c x y z)) = blocks c"
    with wf show ?thesis by (simp add: wf_chunk_def)
  next
    assume "blocks (fst (Chunk_generateTree r c x y z)) = ?b2"
    with 3 show ?thesis by (simp add: wf_chunk_def)
  qed
qed

lemma fold_trunk_base:
  assumes "wf_blocks sz h b" "x < sz" "nat y < h" "z < sz"
    and "b ! x ! nat y ! z = WOOD \<or> 0 \<in> set ts"
  shows "wf_blocks sz h (fold (\<lambda>tY b. set3 b x (nat (y + tY)) z WOOD) ts b)
       \<and> fold (\<lambda>tY b. set3 b x (nat (y + tY)) z WOOD) ts b ! x ! nat y ! z = WOOD"
  using assms(1,5)
proof (induction ts arbitrary: b)
  case Nil
  then show ?case by simp
next
  case (Cons a ts)
  let ?b = "set3 b x (nat (y + a)) z WOOD"
  have wf: "wf_blocks sz h ?b" by (rule wf_blocks_set3[OF Cons.prems(1)])
  have n: "?b ! x ! nat y ! z = (if nat y = nat (y + a) then WOOD else b ! x ! nat y ! z)"
    using set3_nth[OF Cons.prems(1) assms(2,3,4), of x "nat (y + a)" z WOOD] by simp
  have "?b ! x ! nat y ! z = WOOD \<or> 0 \<in> set ts"
    using Cons.prems(2) n by auto
  from Cons.IH[OF wf this] show ?case by simp
qed

lemma placeLeaf_keeps_base:
  assumes "wf_blocks sz h b" "x < sz" "nat y < h" "z < sz" "0 \<le> y" "1 \<le> th"
  shows "placeLeaf c x y z th l b ! x ! nat y ! z = b ! x ! nat y ! z"
proof -
  obtain lX lY lZ where l: "l = (lX, lY, lZ)" by (cases l)
  let ?s = "set3 b (nat (int x + lX)) (nat (y + th + lY)) (nat (int z + lZ)) LEAVES"
  show ?thesis
  proof (cases "placeLeaf c x y z th l b = b")
    case True
    then show ?thesis by simp
  next
    case False
    then have e: "placeLeaf c x y z th l b = ?s"
      and g: "0 \<le> int x + lX" "0 \<le> y + th + lY" "0 \<le> int z + lZ" "\<not> (lX = 0 \<and> lZ = 0 \<and> lY < 0)"
      by (auto simp: placeLeaf_def l Let_def split: if_splits)
    have "\<not> (x = nat (int x + lX) \<and> nat y = nat (y + th + lY) \<and> z = nat (int z + lZ))"
      using g assms(5,6) by auto
    then have "?s ! x ! nat y ! z = b ! x ! nat y ! z"
      by (simp only: set3_nth[OF assms(1-4)] if_False)
    then show ?thesis by (simp only: e)
  qed
qed

lemma fold_placeLeaf_keeps_base:
  assumes "wf_blocks sz h b" "x < sz" "nat y < h" "z < sz" "0 \<le> y" "1 \<le> th"
  shows "fold (placeLeaf c x y z th) ls b ! x ! nat y ! z = b ! x ! nat y ! z"
  using assms(1)
proof (induction ls arbitrary: b)
  case Nil
  show ?case by simp
next
  case (Cons l ls)
  have wf: "wf_blocks sz h (placeLeaf c x y z th l b)"
    using placeLeaf_writes[OF Cons.prems] by (rule conjunct1)
  from Cons.IH[OF wf] placeLeaf_keeps_base[OF Cons.prems assms(2-6)]
  show ?case by simp
qed

lemma Chunk_generateTree_base:
  assumes "wf_chunk c" "2 \<le> int x" "int x < int (size_c c) - 2" "2 \<le> int z" "int z < int (size_c c) - 2"
    and "y + 5 < int (height_c c)" "0 \<le> y" "0 \<le> draws r (drawn r)"
  shows "blocks (fst (Chunk_generateTree r c x y z)) ! x ! nat y ! z = WOOD"
proof -
  let ?th = "4 + \<lfloor>draws r (drawn r) * 3\<rfloor>"
  let ?b1 = "fold (\<lambda>tY b. set3 b x (nat (y + tY)) z WOOD) [0..?th - 1] (blocks c)"
  let ?b2 = "fold (placeLeaf c x y z ?th) leafOffsets ?b1"
  from assms(1) have wf: "wf_blocks (size_c c) (height_c c) (blocks c)" by (simp add: wf_chunk_def)
  have r: "x < size_c c" "nat y < height_c c" "z < size_c c"
    using assms(3,5,6,7) by linarith+
  have "0 \<le> \<lfloor>draws r (drawn r) * 3\<rfloor>" using assms(8) by simp
  then have th: "1 \<le> ?th" "4 \<le> ?th" by simp_all
  then have "0 \<in> set [0..?th - 1]" by simp
  then have 1: "wf_blocks (size_c c) (height_c c) ?b1 \<and> ?b1 ! x ! nat y ! z = WOOD"
    by (intro fold_trunk_base[OF wf r]) simp
  have 2: "?b2 ! x ! nat y ! z = ?b1 ! x ! nat y ! z"
    by (rule fold_placeLeaf_keeps_base[OF conjunct1[OF 1] r assms(7) th(1)])
  have "blocks (fst (Chunk_generateTree r c x y z)) = ?b2"
    using assms(2-6) by (simp add: Chunk_generateTree_def split_def Let_def Math_random_def)
  with 1 2 show ?thesis by simp
qed

lemma Math_random_zeroDraws:
  assumes "zeroDraws r"
  shows "fst (Math_random r) = 0" and "zeroDraws (snd (Math_random r))"
  using assms by (simp_all add: zeroDraws_def Math_random_def)

lemma Chunk_generateTree_zeroDraws:
  "zeroDraws r \<Longrightarrow> zeroDraws (snd (Chunk_generateTree r c x y z))"
  using Math_random_zeroDraws(2)[of r]
  by (simp add: Chunk_generateTree_def split_def Let_def)

lemma generateColumn_zeroDraws:
  "zeroDraws r \<Longrightarrow> zeroDraws (snd (generateColumn x z (c, r)))"
  using Math_random_zeroDraws(2)[of r] Chunk_generateTree_zeroDraws[of "snd (Math_random r)"]
  by (simp add: generateColumn_unfold split_def Let_def)

lemma generateColumn_shape:
  assumes "wf_chunk c"
  shows "wf_chunk (fst (generateColumn x z (c, r)))" and "sameShape c (fst (generateColumn x z (c, r)))"
proof -
  let ?c1 = "terrainColumn (x, z) c"
  have wf1: "wf_chunk ?c1" by (rule wf_chunk_terrainColumn[OF assms])
  have "fst (generateColumn x z (c, r)) = ?c1
      \<or> fst (generateColumn x z (c, r)) = fst (Chunk_generateTree (snd (Math_random r)) ?c1 x \<lfloor>columnHeight c x z\<rfloor> z)"
    by (simp add: generateColumn_unfold split_def Let_def)
  then show "wf_chunk (fst (generateColumn x z (c, r)))"
    using wf1 Chunk_generateTree_writes[OF wf1] by auto
  have s1: "sameShape c ?c1" by simp
  have "sameShape c (fst (Chunk_generateTree (snd (Math_random r)) ?c1 x \<lfloor>columnHeight c x z\<rfloor> z))"
    using s1 by (simp add: sameShape_def)
  with s1 show "sameShape c (fst (generateColumn x z (c, r)))"
    by (simp add: generateColumn_unfold split_def Let_def)
qed

lemma generateColumn_other:
  assumes "wf_chunk c" "x' < size_c c" "y' < height_c c" "z' < size_c c" "(x', z') \<noteq> (x, z)"
  shows "blocks (fst (generateColumn x z (c, r))) ! x' ! y' ! z' \<in> {blocks c ! x' ! y' ! z', WOOD, LEAVES}"
proof -
  let ?c1 = "terrainColumn (x, z) c"
  have wf1: "wf_chunk ?c1" by (rule wf_chunk_terrainColumn[OF assms(1)])
  have n1: "blocks ?c1 ! x' ! y' ! z' = blocks c ! x' ! y' ! z'"
    using terrainColumn_nth[OF assms(1-4), of "(x, z)"] assms(5) by auto
  have "x' < size_c ?c1 \<and> y' < height_c ?c1 \<and> z' < size_c ?c1" using assms(2-4) by simp
  with Chunk_generateTree_writes[OF wf1, of "snd (Math_random r)" x "\<lfloor>columnHeight c x z\<rfloor>" z]
  have t: "blocks (fst (Chunk_generateTree (snd (Math_random r)) ?c1 x \<lfloor>columnHeight c x z\<rfloor> z)) ! x' ! y' ! z'
      \<in> {blocks ?c1 ! x' ! y' ! z', WOOD, LEAVES}"
    by (elim conjE allE[of _ x'] allE[of _ y'] allE[of _ z'] impE) (intro conjI, assumption+)
  have "fst (generateColumn x z (c, r)) = ?c1
      \<or> fst (generateColumn x z (c, r)) = fst (Chunk_generateTree (snd (Math_random r)) ?c1 x \<lfloor>columnHeight c x z\<rfloor> z)"
    by (simp add: generateColumn_unfold split_def Let_def)
  then show ?thesis using n1 t by auto
qed

lemma fold_generateColumn_inv:
  assumes "wf_chunk c" "zeroDraws r"
  shows "wf_chunk (fst (fold (\<lambda>xz. generateColumn (fst xz) (snd xz)) cols (c, r)))
       \<and> sameShape c (fst (fold (\<lambda>xz. generateColumn (fst xz) (snd xz)) cols (c, r)))
       \<and> zeroDraws (snd (fold (\<lambda>xz. generateColumn (fst xz) (snd xz)) cols (c, r)))"
  using assms
proof (induction cols arbitrary: c r)
  case Nil
  then show ?case by simp
next
  case (Cons a cols)
  let ?s = "generateColumn (fst a) (snd a) (c, r)"
  have wf: "wf_chunk (fst ?s)" and sh: "sameShape c (fst ?s)"
    by (rule generateColumn_shape[OF Cons.prems(1)])+
  have z: "zeroDraws (snd ?s)" by (rule generateColumn_zeroDraws[OF Cons.prems(2)])
  from Cons.IH[OF wf z] sameShape_trans[OF sh]
  show ?case by simp
qed

lemma fold_generateColumn_keeps:
  assumes "wf_chunk c" "x < size_c c" "y < height_c c" "z < size_c c" "(x, z) \<notin> set cols"
    and "blocks c ! x ! y ! z \<in> {WOOD, LEAVES}"
  shows "blocks (fst (fold (\<lambda>xz. generateColumn (fst xz) (snd xz)) cols (c, r))) ! x ! y ! z \<in> {WOOD, LEAVES}"
  using assms
proof (induction cols arbitrary: c r)
  case Nil
  then show ?case by simp
next
  case (Cons a cols)
  let ?s = "generateColumn (fst a) (snd a) (c, r)"
  have wf: "wf_chunk (fst ?s)" and sh: "sameShape c (fst ?s)"
    by (rule generateColumn_shape[OF Cons.prems(1)])+
  have rg: "x < size_c (fst ?s)" "y < height_c (fst ?s)" "z < size_c (fst ?s)"
    using sh Cons.prems(2-4) by (simp_all add: sameShape_def)
  have ne: "(x, z) \<noteq> (fst a, snd a)" "(x, z) \<notin> set cols" using Cons.prems(5) by auto
  have "blocks (fst ?s) ! x ! y ! z \<in> {WOOD, LEAVES}"
    using generateColumn_other[OF Cons.prems(1-4) ne(1), of r] Cons.prems(6) by auto
  from Cons.IH[OF wf rg ne(2) this, of "snd ?s"] show ?case by simp
qed

lemma generateColumn_tree:
  assumes "wf_chunk c" "0 < height_c c" "x < size_c c" "z < size_c c"
    and "surfaceKind c x z = GRASS"
    and "2 \<le> int x" "int x < int (size_c c) - 2" "2 \<le> int z" "int z < int (size_c c) - 2"
    and "\<lfloor>columnHeight c x z\<rfloor> + 5 < int (height_c c)"
    and "zeroDraws r"
  shows "blocks (fst (generateColumn x z (c, r))) ! x ! nat \<lfloor>columnHeight c x z\<rfloor> ! z = WOOD"
proof -
  let ?h = "columnHeight c x z"
  let ?c1 = "terrainColumn (x, z) c"
  let ?r1 = "snd (Math_random r)"
  have g: "blocks ?c1 ! x ! nat \<lfloor>?h - 1\<rfloor> ! z = GRASS"
    using generateColumn_surface[OF assms(1,3,4,2)] assms(5) by simp
  have d: "fst (Math_random r) < 0.02" using Math_random_zeroDraws(1)[OF assms(11)] by simp
  have e: "generateColumn x z (c, r) = Chunk_generateTree ?r1 ?c1 x \<lfloor>?h\<rfloor> z"
    unfolding generateColumn_unfold Let_def split_def
    by (simp only: g d if_True refl)
  have wf1: "wf_chunk ?c1" by (rule wf_chunk_terrainColumn[OF assms(1)])
  have "1 \<le> ?h" by (rule columnHeight_range(1)[OF assms(2)])
  then have y0: "0 \<le> \<lfloor>?h\<rfloor>" by simp
  have z1: "0 \<le> draws ?r1 (drawn ?r1)"
    using Math_random_zeroDraws(2)[OF assms(11)] by (simp add: zeroDraws_def)
  have "blocks (fst (Chunk_generateTree ?r1 ?c1 x \<lfloor>?h\<rfloor> z)) ! x ! nat \<lfloor>?h\<rfloor> ! z = WOOD"
    by (rule Chunk_generateTree_base[OF wf1 _ _ _ _ _ y0 z1]) (use assms(6-10) in simp_all)
  then show ?thesis by (simp only: e)
qed

lemma grass_column_gets_tree:
  assumes "wf_chunk c" "0 < height_c c" "x < size_c c" "z < size_c c"
    and "surfaceKind c x z = GRASS"
    and "2 \<le> int x" "int x < int (size_c c) - 2" "2 \<le> int z" "int z < int (size_c c) - 2"
    and "\<lfloor>columnHeight c x z\<rfloor> + 5 < int (height_c c)"
    and "zeroDraws r"
  shows "blocks (fst (fold (\<lambda>xz. generateColumn (fst xz) (snd xz)) (allColumns (size_c c)) (c, r)))
           ! x ! nat \<lfloor>columnHeight c x z\<rfloor> ! z \<in> {WOOD, LEAVES}"
proof -
  let ?g = "\<lambda>xz. generateColumn (fst xz) (snd xz)"
  have "(x, z) \<in> set (allColumns (size_c c))" using assms(3,4) by (simp add: set_allColumns)
  then obtain pre post where sp: "allColumns (size_c c) = pre @ (x, z) # post" and np: "(x, z) \<notin> set post"
    using split_list_last by fastforce
  let ?p = "fold ?g pre (c, r)"
  let ?cp = "fst ?p" and ?rp = "snd ?p"
  from fold_generateColumn_inv[OF assms(1,11), of pre]
  have wfp: "wf_chunk ?cp" and shp: "sameShape c ?cp" and zp: "zeroDraws ?rp" by simp_all
  have hp: "columnHeight ?cp x z = columnHeight c x z" by (rule columnHeight_sameShape[OF shp])
  have sp': "size_c ?cp = size_c c" "height_c ?cp = height_c c" using shp by (simp_all add: sameShape_def)
  let ?t = "generateColumn x z (?cp, ?rp)"
  have "blocks (fst ?t) ! x ! nat \<lfloor>columnHeight ?cp x z\<rfloor> ! z = WOOD"
    by (rule generateColumn_tree[OF wfp _ _ _ _ _ _ _ _ _ zp])
      (use assms(2-10) in \<open>simp_all add: sp' hp surfaceKind_sameShape[OF shp]\<close>)
  then have w: "blocks (fst ?t) ! x ! nat \<lfloor>columnHeight c x z\<rfloor> ! z \<in> {WOOD, LEAVES}"
    by (simp add: hp)
  have wft: "wf_chunk (fst ?t)" and sht: "sameShape ?cp (fst ?t)"
    by (rule generateColumn_shape[OF wfp])+
  have "1 \<le> columnHeight c x z" by (rule columnHeight_range(1)[OF assms(2)])
  then have "0 \<le> \<lfloor>columnHeight c x z\<rfloor>" by simp
  with assms(10) have yr: "nat \<lfloor>columnHeight c x z\<rfloor> < height_c c" by linarith
  have rg: "x < size_c (fst ?t)" "nat \<lfloor>columnHeight c x z\<rfloor> < height_c (fst ?t)" "z < size_c (fst ?t)"
    using sht sp' assms(3,4) yr by (simp_all add: sameShape_def)
  have "fold ?g (allColumns (size_c c)) (c, r) = fold ?g post (fst ?t, snd ?t)"
    by (simp add: sp)
  then show ?thesis
    using fold_generateColumn_keeps[OF wft rg np w, of "snd ?t"] by simp
qed

lemma terrain_only_blocks:
  assumes "wf_chunk c" "noTreeDraws r" "x < size_c c" "y < height_c c" "z < size_c c"
  shows "blocks (fst (fold (\<lambda>xz. generateColumn (fst xz) (snd xz)) (allColumns (size_c c)) (c, r))) ! x ! y ! z
           = columnBlock (columnHeight c x z) y"
proof -
  from fold_generateColumn_noTree[OF assms(2), of "allColumns (size_c c)" c]
  have "fst (fold (\<lambda>xz. generateColumn (fst xz) (snd xz)) (allColumns (size_c c)) (c, r))
          = fold terrainColumn (allColumns (size_c c)) c"
    by auto
  then show ?thesis
    using fold_terrainColumn_nth[OF assms(1,3,4,5), of "allColumns (size_c c)"] assms(3,5)
    by (simp add: set_allColumns)
qed

subsection \<open>Two sample chunks\<close>

lemma seedInt_sample: "seedInt (3 / 16384) = 3084"
  by code_simp

lemma heightAt_50_50: "heightAt 3084 128 50 50 = 15"
  by code_simp

lemma heightAt_150_150: "heightAt 3084 128 150 150 = 25 / 2"
  by code_simp

lemma sample_chunk_height:
  "columnHeight (fst (Chunk_new (seededDraws (3 / 16384) v) 3 3 16 128)) 2 2 = 15"
  by (simp add: columnHeight_new seededDraws_def seedInt_sample heightAt_50_50)

lemma sample_chunk_surface:
  "surfaceKind (fst (Chunk_new (seededDraws (3 / 16384) v) 3 3 16 128)) 2 2 = GRASS"
  by (simp add: surfaceKind_def sample_chunk_height columnBlock_def)

lemma sample_tree_run:
  "\<exists>b. generatedBlocks view (seededDraws (3 / 16384) 0) 3 3 16 128 = Some b \<and> b ! 2 ! 15 ! 2 \<in> {WOOD, LEAVES}"
proof -
  let ?r = "seededDraws (3 / 16384) 0"
  let ?c = "fst (Chunk_new ?r 3 3 16 128)"
  have sz: "size_c ?c = 16" "height_c ?c = 128" by (simp_all add: Chunk_new_fields)
  have z: "zeroDraws (snd (Chunk_new ?r 3 3 16 128))"
    by (simp add: Chunk_new_fields zeroDraws_def seededDraws_def)
  have "blocks (fst (fold (\<lambda>xz. generateColumn (fst xz) (snd xz)) (allColumns (size_c ?c))
                (?c, snd (Chunk_new ?r 3 3 16 128)))) ! 2 ! nat \<lfloor>columnHeight ?c 2 2\<rfloor> ! 2 \<in> {WOOD, LEAVES}"
    by (rule grass_column_gets_tree[OF wf_chunk_new _ _ _ sample_chunk_surface _ _ _ _ _ z])
      (simp_all add: sz sample_chunk_height)
  then show ?thesis
    by (simp add: generatedBlocks_columns sz sample_chunk_height)
qed

lemma sample_plain_run:
  "\<exists>b. generatedBlocks view (seededDraws (3 / 16384) (1 / 2)) 3 3 16 128 = Some b \<and> b ! 2 ! 15 ! 2 = AIR"
proof -
  let ?r = "seededDraws (3 / 16384) (1 / 2)"
  let ?c = "fst (Chunk_new ?r 3 3 16 128)"
  have sz: "size_c ?c = 16" "height_c ?c = 128" by (simp_all add: Chunk_new_fields)
  have n: "noTreeDraws (snd (Chunk_new ?r 3 3 16 128))"
    by (simp add: Chunk_new_fields noTreeDraws_def seededDraws_def)
  have "blocks (fst (fold (\<lambda>xz. generateColumn (fst xz) (snd xz)) (allColumns (size_c ?c))
                (?c, snd (Chunk_new ?r 3 3 16 128)))) ! 2 ! 15 ! 2 = columnBlock (columnHeight ?c 2 2) 15"
    by (rule terrain_only_blocks[OF wf_chunk_new n]) (simp_all add: sz)
  then show ?thesis
    by (simp add: generatedBlocks_columns sz sample_chunk_height columnBlock_def)
qed

text \<open>
  The claim as stated excludes any dependence on random state outside the noise source.
  For the chunk \<open>(3, 3)\<close> of the world's dimensions and the seed draw \<open>3/16384\<close>, the column
  at local \<open>(2, 2)\<close>, world \<open>(50, 50)\<close>, has terrain height exactly 15 and a grass surface.
  When the later draws are 0 a tree is placed on it; when they are 1/2 none is. The voxel
  at \<open>(2, 15, 2)\<close> is wood or leaves in the first run and air in the second.
\<close>

theorem generation_random_counterexample:
  "draws (seededDraws (3 / 16384) 0) (drawn (seededDraws (3 / 16384) 0))
     = draws (seededDraws (3 / 16384) (1 / 2)) (drawn (seededDraws (3 / 16384) (1 / 2)))
   \<and> generatedBlocks (worldView emptyWorld (3, 3)) (seededDraws (3 / 16384) 0) 3 3 16 128
     \<noteq> generatedBlocks (worldView emptyWorld (3, 3)) (seededDraws (3 / 16384) (1 / 2)) 3 3 16 128"
proof -
  from sample_tree_run[of "worldView emptyWorld (3, 3)"] obtain b1 where
    1: "generatedBlocks (worldView emptyWorld (3, 3)) (seededDraws (3 / 16384) 0) 3 3 16 128 = Some b1"
    and w: "b1 ! 2 ! 15 ! 2 \<in> {WOOD, LEAVES}" by blast
  from sample_plain_run[of "worldView emptyWorld (3, 3)"] obtain b2 where
    2: "generatedBlocks (worldView emptyWorld (3, 3)) (seededDraws (3 / 16384) (1 / 2)) 3 3 16 128 = Some b2"
    and a: "b2 ! 2 ! 15 ! 2 = AIR" by blast
  from w a have "b1 \<noteq> b2" by auto
  then have n: "generatedBlocks (worldView emptyWorld (3, 3)) (seededDraws (3 / 16384) 0) 3 3 16 128
     \<noteq> generatedBlocks (worldView emptyWorld (3, 3)) (seededDraws (3 / 16384) (1 / 2)) 3 3 16 128"
    by (simp add: 1 2)
  have "draws (seededDraws (3 / 16384) 0) (drawn (seededDraws (3 / 16384) 0))
     = draws (seededDraws (3 / 16384) (1 / 2)) (drawn (seededDraws (3 / 16384) (1 / 2)))"
    by (simp add: seededDraws_def)
  then show ?thesis using n by (rule conjI)
qed

text \<open>
  Whenever the terrain height is not an integer (and at least 2), the fill loop writes
  dirt at \<open>Math.floor(terrainHeight - 1)\<close>.
\<close>

lemma columnBlock_fractional:
  assumes "h \<notin> \<int>" "2 \<le> h"
  shows "columnBlock h (nat \<lfloor>h - 1\<rfloor>) = DIRT"
proof -
  let ?y = "nat \<lfloor>h - 1\<rfloor>"
  have p: "1 \<le> \<lfloor>h - 1\<rfloor>" using assms(2) by (simp add: le_floor_iff)
  then have y: "real ?y = of_int \<lfloor>h - 1\<rfloor>" by simp
  have "h - 1 \<notin> \<int>" using assms(1) by (metis Ints_1 Ints_add diff_add_cancel)
  then have "of_int \<lfloor>h - 1\<rfloor> \<noteq> h - 1" by (metis Ints_of_int)
  moreover have "of_int \<lfloor>h - 1\<rfloor> \<le> h - 1" by (rule of_int_floor_le)
  ultimately have lt: "real ?y < h - 1" unfolding y by linarith
  have "h - 1 < of_int \<lfloor>h - 1\<rfloor> + 1" by linarith
  then have ge: "\<not> real ?y < h - 4" unfolding y by linarith
  have nz: "?y \<noteq> 0" using p by linarith
  show ?thesis unfolding columnBlock_def by (simp only: nz ge lt if_True if_False)
qed

lemma dirt_chunk_height:
  "columnHeight (fst (Chunk_new (seededDraws (3 / 16384) v) 9 9 16 128)) 6 6 = 25 / 2"
  by (simp add: columnHeight_new seededDraws_def seedInt_sample heightAt_150_150)

text \<open>
  Claim C5 at a column whose height is not an integer. For the chunk \<open>(9, 9)\<close> of the
  world's dimensions and the seed draw \<open>3/16384\<close>, the column at local \<open>(6, 6)\<close>, world
  \<open>(150, 150)\<close>, has terrain height 12.5. The claim puts grass at \<open>y = floor(12.5 - 1) = 11\<close>.
  The generated chunk has dirt there and air right above: the test \<open>y < terrainHeight - 1\<close>
  of the dirt layer already holds at \<open>y = 11\<close>, so the surface branch is never reached.
\<close>

theorem surface_voxel_is_dirt:
  "columnHeight (fst (Chunk_new (seededDraws (3 / 16384) (1 / 2)) 9 9 16 128)) 6 6 = 25 / 2
   \<and> map_option (\<lambda>b. (b ! 6 ! 11 ! 6, b ! 6 ! 12 ! 6))
        (generatedBlocks (worldView emptyWorld (9, 9)) (seededDraws (3 / 16384) (1 / 2)) 9 9 16 128)
      = Some (DIRT, AIR)"
proof -
  let ?r = "seededDraws (3 / 16384) (1 / 2)"
  let ?c = "fst (Chunk_new ?r 9 9 16 128)"
  have sz: "size_c ?c = 16" "height_c ?c = 128" by (simp_all add: Chunk_new_fields)
  have n: "noTreeDraws (snd (Chunk_new ?r 9 9 16 128))"
    by (simp add: Chunk_new_fields noTreeDraws_def seededDraws_def)
  have "blocks (fst (fold (\<lambda>xz. generateColumn (fst xz) (snd xz)) (allColumns (size_c ?c))
                (?c, snd (Chunk_new ?r 9 9 16 128)))) ! 6 ! y ! 6 = columnBlock (columnHeight ?c 6 6) y"
    if "y < 128" for y
    by (rule terrain_only_blocks[OF wf_chunk_new n]) (use that in \<open>simp_all add: sz\<close>)
  from this[of 11] this[of 12] show ?thesis
    by (simp add: generatedBlocks_columns sz dirt_chunk_height columnBlock_def)
qed

end
